theory Spec2Isabelle
  imports Complex_Main "HOL-Library.Word"
begin

unbundle bit_operations_syntax

section \<open>The distributed frame buffer (modules/mpi/fb/DistributedFrameBuffer.cpp)\<close>

text \<open>
  A shallow embedding of one rank's \<^verbatim>\<open>DistributedFrameBuffer\<close> object. Every member
  function of the source file is a function on a record of the object's fields; a
  \<^verbatim>\<open>throw\<close> is the outcome \<open>Raised\<close>, and the object keeps the mutations made before it.
\<close>

subsection \<open>Values, errors and outcomes\<close>

datatype error =
    runtime_error string
  | assertion_failure string
  | undefined_behavior string

datatype 'a outcome = Returned 'a | Raised error

text \<open>
  A C \<^verbatim>\<open>float\<close> as far as this file uses one: it is stored, copied and compared, never
  computed with. \<open>fle\<close> and \<open>flt\<close> are the IEEE comparisons \<^verbatim>\<open><=\<close> and \<^verbatim>\<open><\<close>
  (false as soon as one side is NaN); \<open>PosInf\<close> is the constant \<^verbatim>\<open>inf\<close>.
\<close>

datatype cfloat = Finite real | PosInf | NegInf | NaN

fun fle :: "cfloat \<Rightarrow> cfloat \<Rightarrow> bool" where
  "fle NaN _ = False"
| "fle _ NaN = False"
| "fle NegInf _ = True"
| "fle _ PosInf = True"
| "fle (Finite a) (Finite b) = (a \<le> b)"
| "fle (Finite a) NegInf = False"
| "fle PosInf (Finite b) = False"
| "fle PosInf NegInf = False"

fun flt :: "cfloat \<Rightarrow> cfloat \<Rightarrow> bool" where
  "flt NaN _ = False"
| "flt _ NaN = False"
| "flt PosInf _ = False"
| "flt _ NegInf = False"
| "flt (Finite a) (Finite b) = (a < b)"
| "flt (Finite a) PosInf = True"
| "flt NegInf (Finite b) = True"
| "flt NegInf PosInf = True"

type_synonym vec2i = "int \<times> int"
type_synonym vec3f = "cfloat \<times> cfloat \<times> cfloat"
type_synonym int32 = "32 word"

text \<open>C's integer division truncates towards zero.\<close>

definition cdiv :: "int \<Rightarrow> int \<Rightarrow> int" where
  "cdiv a b = sgn a * sgn b * (\<bar>a\<bar> div \<bar>b\<bar>)"

datatype OSPFrameBufferFormat = OSP_FB_NONE | OSP_FB_RGBA8 | OSP_FB_SRGBA | OSP_FB_RGBA32F

datatype FrameMode = WRITE_MULTIPLE | ALPHA_BLEND | Z_COMPOSITE

subsection \<open>Command tags and sizes (DistributedFrameBuffer.h, not in the sources)\<close>

text \<open>Modelled from the spec: the header with the command tags is missing; section 6 gives
  the bits \<^verbatim>\<open>MASTER_WRITE_TILE_I8 = 1\<close>, \<^verbatim>\<open>MASTER_WRITE_TILE_F32 = 2\<close>, \<^verbatim>\<open>HAS_DEPTH = 4\<close>,
  \<^verbatim>\<open>HAS_AUX = 8\<close>, \<^verbatim>\<open>WORKER_WRITE_TILE = 16\<close>, \<^verbatim>\<open>CANCEL_RENDERING = 32\<close>.\<close>

definition MASTER_WRITE_TILE_I8 :: int32 where "MASTER_WRITE_TILE_I8 = 1"
definition MASTER_WRITE_TILE_F32 :: int32 where "MASTER_WRITE_TILE_F32 = 2"
definition MASTER_TILE_HAS_DEPTH :: int32 where "MASTER_TILE_HAS_DEPTH = 4"
definition MASTER_TILE_HAS_AUX :: int32 where "MASTER_TILE_HAS_AUX = 8"
definition WORKER_WRITE_TILE :: int32 where "WORKER_WRITE_TILE = 16"
definition CANCEL_RENDERING :: int32 where "CANCEL_RENDERING = 32"

text \<open>Modelled from the spec: the sizes of the message structs, whose member types are
  declared in missing headers. Section 6 lays the header out in 16 bytes (command 4, coords 8,
  error 4), a colour pixel in 4 bytes (8-bit formats) or 16 (float32), a depth value in 4 and a
  normal or albedo in 12.\<close>

definition sizeof_MasterTileMessage :: nat where "sizeof_MasterTileMessage = 16"
definition sizeof_uint32 :: nat where "sizeof_uint32 = 4"
definition sizeof_vec4f :: nat where "sizeof_vec4f = 16"
definition sizeof_float :: nat where "sizeof_float = 4"
definition sizeof_vec3f :: nat where "sizeof_vec3f = 12"

text \<open>\<^verbatim>\<open>sizeof(MasterTileMessage_FB<ColorT>)\<close>: the header and \<^verbatim>\<open>TILE_SIZE * TILE_SIZE\<close>
  colour pixels. \<open>T\<close> is the compile-time constant \<^verbatim>\<open>TILE_SIZE\<close>.\<close>

definition sizeof_MasterTileMessage_RGBA_I8 :: "nat \<Rightarrow> nat" where
  "sizeof_MasterTileMessage_RGBA_I8 T = sizeof_MasterTileMessage + sizeof_uint32 * (T * T)"

definition sizeof_MasterTileMessage_RGBA_F32 :: "nat \<Rightarrow> nat" where
  "sizeof_MasterTileMessage_RGBA_F32 T = sizeof_MasterTileMessage + sizeof_vec4f * (T * T)"

subsection \<open>Messages\<close>

record TileMessage =
  command :: int32

record MasterTileMessage = TileMessage +
  coords :: vec2i
  error :: cfloat

text \<open>The arrays of \<^verbatim>\<open>TILE_SIZE * TILE_SIZE\<close> entries are functions of the index.\<close>

record 'c MasterTileMessage_FB = MasterTileMessage +
  color :: "int \<Rightarrow> 'c"

record 'c MasterTileMessage_FB_Depth = "'c MasterTileMessage_FB" +
  depth :: "int \<Rightarrow> cfloat"

record 'c MasterTileMessage_FB_Depth_Aux = "'c MasterTileMessage_FB_Depth" +
  normal :: "int \<Rightarrow> vec3f"
  albedo :: "int \<Rightarrow> vec3f"

text \<open>\<^verbatim>\<open>WriteTileMessage\<close>; \<open>coords_w\<close> is its member \<^verbatim>\<open>coords\<close>. The tile payload
  \<^verbatim>\<open>ospray::Tile\<close> is a type parameter.\<close>

record 't WriteTileMessage = TileMessage +
  coords_w :: vec2i
  tile :: 't

text \<open>An \<^verbatim>\<open>mpicommon::Message\<close> is a byte buffer that the router reads through casts. The
  model keeps what the buffer was built from: a bare \<^verbatim>\<open>TileMessage\<close> (the cancel message
  is \<^verbatim>\<open>sizeof(TileMessage)\<close> bytes long) or a \<^verbatim>\<open>WriteTileMessage\<close>.\<close>

datatype 't Message = Msg_TileMessage TileMessage | Msg_WriteTileMessage "'t WriteTileMessage"

fun command_of :: "'t Message \<Rightarrow> int32" where
  "command_of (Msg_TileMessage m) = command m"
| "command_of (Msg_WriteTileMessage m) = command m"

subsection \<open>masterMsgSize and MasterTileMessageBuilder\<close>

definition masterMsgSize :: "nat \<Rightarrow> OSPFrameBufferFormat \<Rightarrow> bool \<Rightarrow> nat outcome" where
  "masterMsgSize T fmt hasDepth =
     (case fmt of
        OSP_FB_NONE \<Rightarrow>
          Raised (runtime_error ''Do not use per tile message for FB_NONE! (msgSize)'')
      | OSP_FB_RGBA8 \<Rightarrow>
          Returned (sizeof_MasterTileMessage_RGBA_I8 T
                    + (if hasDepth then sizeof_float * T * T else 0))
      | OSP_FB_SRGBA \<Rightarrow>
          Returned (sizeof_MasterTileMessage_RGBA_I8 T
                    + (if hasDepth then sizeof_float * T * T else 0))
      | OSP_FB_RGBA32F \<Rightarrow>
          Returned (sizeof_MasterTileMessage_RGBA_F32 T
                    + (if hasDepth then sizeof_float * T * T else 0)))"

text \<open>The message a builder allocates: its byte size and its header. The pixel
  payload is copied in by \<^verbatim>\<open>setColor\<close>, \<^verbatim>\<open>setDepth\<close>, \<^verbatim>\<open>setNormal\<close>, \<^verbatim>\<open>setAlbedo\<close> from
  the tile, whose contents are the type parameter \<open>'x\<close>.\<close>

record 'x BuiltMessage =
  size_m :: nat
  header :: MasterTileMessage
  payload :: "'x option"

record 'x MasterTileMessageBuilder =
  colorFormat_b :: OSPFrameBufferFormat
  hasDepth_b :: bool
  hasNormal_b :: bool
  hasAlbedo_b :: bool
  pixelSize :: nat
  message :: "'x BuiltMessage"

text \<open>The constructor. The source declares \<^verbatim>\<open>msgSize\<close> as \<^verbatim>\<open>const size_t\<close> and then
  adds to it; the model follows the additions as written. The call of \<open>masterMsgSize\<close> comes
  first, so for \<^verbatim>\<open>OSP_FB_NONE\<close> its exception is the one raised.\<close>

definition MasterTileMessageBuilder_ctor ::
  "nat \<Rightarrow> OSPFrameBufferFormat \<Rightarrow> bool \<Rightarrow> bool \<Rightarrow> bool \<Rightarrow> vec2i \<Rightarrow> cfloat
     \<Rightarrow> 'x MasterTileMessageBuilder outcome" where
  "MasterTileMessageBuilder_ctor T fmt hasDepth hasNormal hasAlbedo coords0 error0 =
     (case masterMsgSize T fmt hasDepth of
        Raised e \<Rightarrow> Raised e
      | Returned msgSize0 \<Rightarrow>
         (case fmt of
            OSP_FB_NONE \<Rightarrow>
              Raised (runtime_error ''Do not use per tile message for FB_NONE! (msg ctor)'')
          | _ \<Rightarrow>
            (let (command0, pixelSize0) =
                   (if fmt = OSP_FB_RGBA32F then (MASTER_WRITE_TILE_F32, sizeof_vec4f)
                    else (MASTER_WRITE_TILE_I8, sizeof_uint32));
                 (msgSize1, command1) =
                   (if hasDepth \<or> hasNormal \<or> hasAlbedo
                    then (msgSize0 + sizeof_float * T * T,
                          if hasDepth then command0 OR MASTER_TILE_HAS_DEPTH else command0)
                    else (msgSize0, command0));
                 (msgSize2, command2) =
                   (if hasNormal \<or> hasAlbedo
                    then (msgSize1 + 2 * sizeof_vec3f * T * T, command1 OR MASTER_TILE_HAS_AUX)
                    else (msgSize1, command1))
             in Returned
                  \<lparr>colorFormat_b = fmt, hasDepth_b = hasDepth, hasNormal_b = hasNormal,
                   hasAlbedo_b = hasAlbedo, pixelSize = pixelSize0,
                   message = \<lparr>size_m = msgSize2,
                              header = \<lparr>command = command2, coords = coords0, error = error0\<rparr>,
                              payload = None\<rparr>\<rparr>)))"

text \<open>The size section 6 gives a master tile message: the header, the colour pixels, the
  depth values iff \<^verbatim>\<open>HAS_DEPTH\<close> is set, normals and albedos iff \<^verbatim>\<open>HAS_AUX\<close> is set.
  Modelled from the spec: this is the spec's table, for comparison with the code.\<close>

definition wireTileBytes :: "nat \<Rightarrow> OSPFrameBufferFormat \<Rightarrow> bool \<Rightarrow> bool \<Rightarrow> bool \<Rightarrow> nat" where
  "wireTileBytes T fmt hasDepth hasNormal hasAlbedo =
     16 + (if fmt = OSP_FB_RGBA32F then 16 else 4) * T * T
        + (if hasDepth then 4 * T * T else 0)
        + (if hasNormal \<or> hasAlbedo then 12 * T * T + 12 * T * T else 0)"

subsection \<open>Ranks (mpiCommon/MPICommon.h, not in the sources)\<close>

text \<open>Modelled from the spec: the helpers of \<^verbatim>\<open>mpicommon\<close> are missing. The spec has the
  master at rank 0, \<open>R - 1\<close> workers among \<open>R\<close> ranks, and worker \<open>w\<close> at global rank
  \<open>w + 1\<close> (its ownership scenario: two workers are the ranks 1 and 2).\<close>

definition masterRank :: nat where "masterRank = 0"

definition numWorkers :: "nat \<Rightarrow> nat" where
  "numWorkers numGlobalRanks = numGlobalRanks - 1"

definition globalRankFromWorkerRank :: "nat \<Rightarrow> nat" where
  "globalRankFromWorkerRank workerRank = 1 + workerRank"

definition IamTheMaster :: "nat \<Rightarrow> bool" where
  "IamTheMaster globalRank \<longleftrightarrow> globalRank = masterRank"

definition IamAWorker :: "nat \<Rightarrow> bool" where
  "IamAWorker globalRank \<longleftrightarrow> globalRank > 0"

subsection \<open>Tile ownership\<close>

text \<open>\<^verbatim>\<open>ownerIDFromTileID\<close>. The operator \<^verbatim>\<open>%\<close> with a zero divisor is undefined in C++.\<close>

definition ownerIDFromTileID :: "bool \<Rightarrow> nat \<Rightarrow> nat \<Rightarrow> nat outcome" where
  "ownerIDFromTileID masterIsAWorker numGlobalRanks tileID =
     (if masterIsAWorker
      then (if numGlobalRanks = 0 then Raised (undefined_behavior ''modulo by zero'')
            else Returned (tileID mod numGlobalRanks))
      else (if numWorkers numGlobalRanks = 0 then Raised (undefined_behavior ''modulo by zero'')
            else Returned (globalRankFromWorkerRank (tileID mod numWorkers numGlobalRanks))))"

subsection \<open>Tiles, the error region and the master's local frame buffer\<close>

text \<open>\<^verbatim>\<open>TileDesc\<close> (\<open>tile_begin\<close> is its member \<^verbatim>\<open>begin\<close>) and \<^verbatim>\<open>TileData\<close>, the state of a
  tile on its owner: \<open>error_t\<close> is the member \<^verbatim>\<open>error\<close>, and \<open>contents\<close> stands for the pixel
  buffers \<^verbatim>\<open>accum\<close>, \<^verbatim>\<open>variance\<close>, \<^verbatim>\<open>final\<close>, \<^verbatim>\<open>color\<close> and the fields of the compositing
  mode, which only code outside this file reads and writes.\<close>

record TileDesc =
  tile_begin :: vec2i
  tileID :: nat
  ownerID :: nat

record 'x TileData = TileDesc +
  error_t :: cfloat
  contents :: 'x

text \<open>\<^verbatim>\<open>TileError\<close>, of which \<^verbatim>\<open>DistributedTileError::sync\<close> shows the members \<^verbatim>\<open>tiles\<close>
  and \<^verbatim>\<open>tileErrorBuffer\<close>.\<close>

record TileError =
  numTiles_e :: vec2i
  tiles :: int
  tileErrorBuffer :: "cfloat list"

record 'c LocalFrameBuffer =
  colorBuffer :: "int \<Rightarrow> 'c"
  depthBuffer :: "int \<Rightarrow> cfloat"
  normalBuffer :: "int \<Rightarrow> vec3f"
  albedoBuffer :: "int \<Rightarrow> vec3f"

datatype OSPFrameBufferChannel =
  OSP_FB_COLOR | OSP_FB_DEPTH | OSP_FB_ACCUM | OSP_FB_VARIANCE | OSP_FB_NORMAL | OSP_FB_ALBEDO

text \<open>The collaborators this file calls and the sources do not contain, as parameters:
  the three tile classes (their constructors give a new tile's \<^verbatim>\<open>error\<close> and contents;
  \<open>newFrame\<close> reads \<^verbatim>\<open>tileInstances\<close>; \<open>process\<close> integrates a contribution and says whether
  it called \<^verbatim>\<open>tileIsCompleted\<close>), the pixel operation's \<^verbatim>\<open>preAccum\<close> and \<^verbatim>\<open>postAccum\<close>
  (the identity when no pixel operation is installed), the kernels \<^verbatim>\<open>DFB_writeTile_*\<close>
  that fill a completed tile's \<^verbatim>\<open>color\<close>, the clearing of a tile's buffers,
  \<^verbatim>\<open>TileError::refine\<close>, the constructor of the local frame buffer, and the lower corner of
  an \<^verbatim>\<open>ospray::Tile\<close>'s region.\<close>

record ('t, 'x, 'c) Collaborators =
  new_WriteMultipleTile :: "cfloat \<times> 'x"
  new_AlphaBlendTile_simple :: "cfloat \<times> 'x"
  new_ZCompositeTile :: "nat \<Rightarrow> cfloat \<times> 'x"
  newFrame :: "int32 list \<Rightarrow> 'x TileData \<Rightarrow> 'x TileData"
  process :: "'t \<Rightarrow> 'x TileData \<Rightarrow> 'x TileData \<times> bool"
  postAccum :: "'x TileData \<Rightarrow> 'x TileData"
  DFB_writeTile :: "OSPFrameBufferFormat \<Rightarrow> 'x TileData \<Rightarrow> 'x TileData"
  preAccum :: "'t \<Rightarrow> 't"
  clearTile :: "OSPFrameBufferChannel set \<Rightarrow> 'x TileData \<Rightarrow> 'x TileData"
  refine :: "cfloat \<Rightarrow> TileError \<Rightarrow> cfloat \<times> TileError"
  new_LocalFrameBuffer ::
    "vec2i \<Rightarrow> OSPFrameBufferFormat \<Rightarrow> OSPFrameBufferChannel set \<Rightarrow> 'c LocalFrameBuffer"
  region_lower :: "'t \<Rightarrow> vec2i"

text \<open>Modelled from the spec: \<^verbatim>\<open>TileError\<close>'s constructor, \<^verbatim>\<open>operator[]\<close>, \<^verbatim>\<open>update\<close> and
  \<^verbatim>\<open>clear\<close> are missing. The spec has a fine grid of per-tile errors, row-major
  (\<open>tileId = ty * numTilesX + tx\<close>), which \<^verbatim>\<open>operator[]\<close> reads and \<^verbatim>\<open>update\<close> writes, with
  \<open>+inf\<close> for an unknown error; a region without tiles stores nothing.\<close>

definition TileError_ctor :: "vec2i \<Rightarrow> TileError" where
  "TileError_ctor n =
     \<lparr>numTiles_e = n, tiles = fst n * snd n,
      tileErrorBuffer = replicate (nat (fst n * snd n)) PosInf\<rparr>"

definition TileError_index :: "TileError \<Rightarrow> vec2i \<Rightarrow> int" where
  "TileError_index te t = snd t * fst (numTiles_e te) + fst t"

definition TileError_read :: "TileError \<Rightarrow> vec2i \<Rightarrow> cfloat outcome" where
  "TileError_read te t =
     (if tiles te \<le> 0 then Returned PosInf
      else if 0 \<le> TileError_index te t \<and> TileError_index te t < int (length (tileErrorBuffer te))
      then Returned (tileErrorBuffer te ! nat (TileError_index te t))
      else Raised (undefined_behavior ''tileErrorBuffer read out of range''))"

definition TileError_update :: "vec2i \<Rightarrow> cfloat \<Rightarrow> TileError \<Rightarrow> unit outcome \<times> TileError" where
  "TileError_update t err te =
     (if tiles te \<le> 0 then (Returned (), te)
      else if 0 \<le> TileError_index te t \<and> TileError_index te t < int (length (tileErrorBuffer te))
      then (Returned (),
            te\<lparr>tileErrorBuffer := (tileErrorBuffer te)[nat (TileError_index te t) := err]\<rparr>)
      else (Raised (undefined_behavior ''tileErrorBuffer write out of range''), te))"

definition TileError_clear :: "TileError \<Rightarrow> TileError" where
  "TileError_clear te =
     te\<lparr>tileErrorBuffer := replicate (length (tileErrorBuffer te)) PosInf\<rparr>"

text \<open>\<^verbatim>\<open>DistributedTileError::sync\<close>: the broadcast leaves the master's buffer as it is and
  overwrites a worker's first \<^verbatim>\<open>tiles\<close> entries with the master's (\<open>fromMaster\<close>, the
  master's array as a function of the index).\<close>

definition bcast :: "nat \<Rightarrow> nat \<Rightarrow> (nat \<Rightarrow> 'a) \<Rightarrow> 'a list \<Rightarrow> 'a list" where
  "bcast rank n fromMaster buf =
     (if IamTheMaster rank then buf else map fromMaster [0..<n] @ drop n buf)"

definition sync :: "nat \<Rightarrow> (nat \<Rightarrow> cfloat) \<Rightarrow> TileError \<Rightarrow> TileError" where
  "sync rank fromMaster te =
     (if tiles te \<le> 0 then te
      else te\<lparr>tileErrorBuffer := bcast rank (nat (tiles te)) fromMaster (tileErrorBuffer te)\<rparr>)"

subsection \<open>The object\<close>

text \<open>The gather buffer is kept as its size in bytes and the \<^verbatim>\<open>memcpy\<close> calls made into
  it (offset and message), the latest last.\<close>

record 'x GatherBuffer =
  gb_size :: nat
  gb_writes :: "(nat \<times> 'x BuiltMessage) list"

text \<open>The fields of the object, of its base class \<^verbatim>\<open>FrameBuffer\<close>, and what surrounds it:
  the build (\<open>TILE_SIZE\<close>, \<open>NDEBUG\<close>), the MPI world (\<open>globalRank\<close>, \<open>numGlobalRanks\<close>),
  the tasks handed to \<^verbatim>\<open>tasking::schedule\<close> that have not run yet (\<open>scheduled\<close>) and the
  messages handed to \<^verbatim>\<open>mpi::messaging::sendTo\<close> (\<open>sent\<close>). Telemetry is left out.
  \<^verbatim>\<open>TILE_SIZE\<close> is a positive constant of the build, so the divisions by it are defined.\<close>

record ('t, 'x, 'c) DFB =
  TILE_SIZE :: nat
  NDEBUG :: bool
  globalRank :: nat
  numGlobalRanks :: nat
  numPixels :: vec2i
  numTiles :: vec2i
  colorBufferFormat :: OSPFrameBufferFormat
  hasDepthBuffer :: bool
  hasAccumBuffer :: bool
  hasVarianceBuffer :: bool
  hasNormalBuffer :: bool
  hasAlbedoBuffer :: bool
  frameID :: int
  cancelRendering :: bool
  masterIsAWorker :: bool
  frameMode :: FrameMode
  allTiles :: "TileDesc list"
  myTiles :: "'x TileData list"
  tileAccumID :: "int32 list"
  tileInstances :: "int32 list"
  tileErrorRegion :: TileError
  localFBonMaster :: "'c LocalFrameBuffer option"
  frameIsActive :: bool
  frameIsDone :: bool
  delayedMessage :: "'t Message list"
  numTilesCompletedThisFrame :: nat
  nextTileWrite :: nat
  tileGatherBuffer :: "'x GatherBuffer"
  tileIDs :: "vec2i list"
  tileErrors :: "cfloat list"
  scheduled :: "'t Message list"
  sent :: "(nat \<times> 't Message) list"

text \<open>Modelled from the spec: \<^verbatim>\<open>FrameBuffer::getTotalTiles\<close> and \<^verbatim>\<open>TileDesc::mine\<close> are
  declared in missing headers; the spec has \<open>totalTiles\<close> over the tile grid and
  \<open>mine() = (ownerRank == thisRank)\<close>.\<close>

definition getTotalTiles :: "('t, 'x, 'c) DFB \<Rightarrow> nat" where
  "getTotalTiles s = nat (fst (numTiles s) * snd (numTiles s))"

definition mine :: "('t, 'x, 'c) DFB \<Rightarrow> 'a TileDesc_scheme \<Rightarrow> bool" where
  "mine s d \<longleftrightarrow> ownerID d = globalRank s"

subsection \<open>Creating the tiles\<close>

definition mkTileData :: "vec2i \<Rightarrow> nat \<Rightarrow> nat \<Rightarrow> cfloat \<times> 'x \<Rightarrow> 'x TileData" where
  "mkTileData xy tid oid ex =
     \<lparr>tile_begin = xy, tileID = tid, ownerID = oid, error_t = fst ex, contents = snd ex\<rparr>"

definition createTile ::
  "('t, 'x, 'c) Collaborators \<Rightarrow> ('t, 'x, 'c) DFB \<Rightarrow> vec2i \<Rightarrow> nat \<Rightarrow> nat \<Rightarrow> 'x TileData" where
  "createTile cl s xy tid oid =
     (case frameMode s of
        WRITE_MULTIPLE \<Rightarrow> mkTileData xy tid oid (new_WriteMultipleTile cl)
      | ALPHA_BLEND \<Rightarrow> mkTileData xy tid oid (new_AlphaBlendTile_simple cl)
      | Z_COMPOSITE \<Rightarrow>
          mkTileData xy tid oid
            (new_ZCompositeTile cl
               (if masterIsAWorker s then numGlobalRanks s else numWorkers (numGlobalRanks s))))"

text \<open>The two loops of \<^verbatim>\<open>createTiles\<close>, the inner one over \<open>x\<close> first. They carry the tile
  counter and the two vectors. \<^verbatim>\<open>TILE_SIZE\<close> is a positive constant of the build; the test
  \<open>0 < TILE_SIZE s\<close> is there for the definitions to be total.\<close>

function createTiles_x ::
  "('t, 'x, 'c) Collaborators \<Rightarrow> ('t, 'x, 'c) DFB \<Rightarrow> int \<Rightarrow> int \<Rightarrow> nat
     \<Rightarrow> 'x TileData list \<times> TileDesc list
     \<Rightarrow> unit outcome \<times> nat \<times> 'x TileData list \<times> TileDesc list" where
  "createTiles_x cl s y x tid acc =
     (if x < fst (numPixels s) \<and> 0 < TILE_SIZE s then
        (case ownerIDFromTileID (masterIsAWorker s) (numGlobalRanks s) tid of
           Raised e \<Rightarrow> (Raised e, tid, acc)
         | Returned oid \<Rightarrow>
             createTiles_x cl s y (x + int (TILE_SIZE s)) (tid + 1)
               (if oid = globalRank s
                then (fst acc @ [createTile cl s (x, y) tid oid],
                      snd acc @ [TileDesc.truncate (createTile cl s (x, y) tid oid)])
                else (fst acc,
                      snd acc @ [\<lparr>tile_begin = (x, y), tileID = tid, ownerID = oid\<rparr>])))
      else (Returned (), tid, acc))"
  by pat_completeness auto
termination
  by (relation "measure (\<lambda>(cl, s, y, x, tid, acc). nat (fst (numPixels s) - x))") auto

function createTiles_y ::
  "('t, 'x, 'c) Collaborators \<Rightarrow> ('t, 'x, 'c) DFB \<Rightarrow> int \<Rightarrow> nat
     \<Rightarrow> 'x TileData list \<times> TileDesc list
     \<Rightarrow> unit outcome \<times> nat \<times> 'x TileData list \<times> TileDesc list" where
  "createTiles_y cl s y tid acc =
     (if y < snd (numPixels s) \<and> 0 < TILE_SIZE s then
        (case createTiles_x cl s y 0 tid acc of
           (Raised e, tid', acc') \<Rightarrow> (Raised e, tid', acc')
         | (Returned u, tid', acc') \<Rightarrow> createTiles_y cl s (y + int (TILE_SIZE s)) tid' acc')
      else (Returned (), tid, acc))"
  by pat_completeness auto
termination
  by (relation "measure (\<lambda>(cl, s, y, tid, acc). nat (snd (numPixels s) - y))") auto

declare createTiles_x.simps [simp del]
declare createTiles_y.simps [simp del]

definition createTiles ::
  "('t, 'x, 'c) Collaborators \<Rightarrow> ('t, 'x, 'c) DFB \<Rightarrow> unit outcome \<times> ('t, 'x, 'c) DFB" where
  "createTiles cl s =
     (case createTiles_y cl s 0 0 (myTiles s, allTiles s) of
        (r, tid, acc) \<Rightarrow> (r, s\<lparr>myTiles := fst acc, allTiles := snd acc\<rparr>))"

definition freeTiles :: "('t, 'x, 'c) DFB \<Rightarrow> ('t, 'x, 'c) DFB" where
  "freeTiles s = s\<lparr>allTiles := [], myTiles := []\<rparr>"

definition setFrameMode ::
  "('t, 'x, 'c) Collaborators \<Rightarrow> FrameMode \<Rightarrow> ('t, 'x, 'c) DFB
     \<Rightarrow> unit outcome \<times> ('t, 'x, 'c) DFB" where
  "setFrameMode cl newFrameMode s =
     (if frameMode s = newFrameMode then (Returned (), s)
      else createTiles cl ((freeTiles s)\<lparr>frameMode := newFrameMode\<rparr>))"

subsection \<open>The constructor\<close>

text \<open>Modelled from the spec: the constructor of the base class \<^verbatim>\<open>FrameBuffer\<close> is missing.
  It derives the tile grid from the image size (tiles of side \<^verbatim>\<open>TILE_SIZE\<close>, the last ones
  of a row or column cut by the image) and the \<^verbatim>\<open>has*Buffer\<close> flags from the channels; the
  frame counter starts at \<open>-1\<close>, the value \<^verbatim>\<open>clear\<close> resets it to.\<close>

definition divRoundUp :: "int \<Rightarrow> nat \<Rightarrow> int" where
  "divRoundUp a T = cdiv (a + int T - 1) (int T)"

definition FrameBuffer_ctor ::
  "nat \<Rightarrow> bool \<Rightarrow> nat \<Rightarrow> nat \<Rightarrow> vec2i \<Rightarrow> OSPFrameBufferFormat \<Rightarrow> OSPFrameBufferChannel set
     \<Rightarrow> bool \<Rightarrow> ('t, 'x, 'c) DFB" where
  "FrameBuffer_ctor T ndebug rank R np fmt channels miaw =
     \<lparr>TILE_SIZE = T, NDEBUG = ndebug, globalRank = rank, numGlobalRanks = R,
      numPixels = np, numTiles = (divRoundUp (fst np) T, divRoundUp (snd np) T),
      colorBufferFormat = fmt,
      hasDepthBuffer = (OSP_FB_DEPTH \<in> channels),
      hasAccumBuffer = (OSP_FB_ACCUM \<in> channels),
      hasVarianceBuffer = (OSP_FB_VARIANCE \<in> channels \<and> OSP_FB_ACCUM \<in> channels),
      hasNormalBuffer = (OSP_FB_NORMAL \<in> channels),
      hasAlbedoBuffer = (OSP_FB_ALBEDO \<in> channels),
      frameID = - 1, cancelRendering = False, masterIsAWorker = miaw,
      frameMode = WRITE_MULTIPLE, allTiles = [], myTiles = [],
      tileAccumID = [], tileInstances = [],
      tileErrorRegion = TileError_ctor (0, 0), localFBonMaster = None,
      frameIsActive = False, frameIsDone = False, delayedMessage = [],
      numTilesCompletedThisFrame = 0, nextTileWrite = 0,
      tileGatherBuffer = \<lparr>gb_size = 0, gb_writes = []\<rparr>,
      tileIDs = [], tileErrors = [], scheduled = [], sent = []\<rparr>"

text \<open>The member initialisers of the constructor, then its body.\<close>

definition DFB_init ::
  "nat \<Rightarrow> bool \<Rightarrow> nat \<Rightarrow> nat \<Rightarrow> vec2i \<Rightarrow> OSPFrameBufferFormat \<Rightarrow> OSPFrameBufferChannel set
     \<Rightarrow> bool \<Rightarrow> ('t, 'x, 'c) DFB" where
  "DFB_init T ndebug rank R np fmt channels miaw =
     (let s0 = FrameBuffer_ctor T ndebug rank R np fmt channels miaw
      in s0\<lparr>tileErrorRegion :=
               TileError_ctor (if hasVarianceBuffer s0 then numTiles s0 else (0, 0))\<rparr>)"

definition DFB_ctor ::
  "('t, 'x, 'c) Collaborators \<Rightarrow> nat \<Rightarrow> bool \<Rightarrow> nat \<Rightarrow> nat \<Rightarrow> vec2i \<Rightarrow> OSPFrameBufferFormat
     \<Rightarrow> OSPFrameBufferChannel set \<Rightarrow> bool \<Rightarrow> unit outcome \<times> ('t, 'x, 'c) DFB" where
  "DFB_ctor cl T ndebug rank R np fmt channels miaw =
     (case createTiles cl (DFB_init T ndebug rank R np fmt channels miaw) of
        (Raised e, s2) \<Rightarrow> (Raised e, s2)
      | (Returned u, s2) \<Rightarrow>
          (let s3 = s2\<lparr>tileAccumID := replicate (getTotalTiles s2) 0,
                       tileInstances := replicate (getTotalTiles s2) 0\<rparr>
           in (Returned (),
               if IamTheMaster rank \<and> fmt \<noteq> OSP_FB_NONE
               then s3\<lparr>localFBonMaster :=
                         Some (new_LocalFrameBuffer cl np fmt
                                 (channels - {OSP_FB_ACCUM, OSP_FB_VARIANCE}))\<rparr>
               else s3)))"

subsection \<open>Frame control\<close>

definition closeCurrentFrame :: "('t, 'x, 'c) DFB \<Rightarrow> ('t, 'x, 'c) DFB" where
  "closeCurrentFrame s = s\<lparr>frameIsActive := False, frameIsDone := True\<rparr>"

definition isFrameComplete :: "nat \<Rightarrow> ('t, 'x, 'c) DFB \<Rightarrow> bool \<times> ('t, 'x, 'c) DFB" where
  "isFrameComplete n s =
     (let s' = s\<lparr>numTilesCompletedThisFrame := numTilesCompletedThisFrame s + n\<rparr>
      in (if IamAWorker (globalRank s') \<or> (IamTheMaster (globalRank s') \<and> masterIsAWorker s')
          then numTilesCompletedThisFrame s' = length (myTiles s')
          else numTilesCompletedThisFrame s' = getTotalTiles s',
          s'))"

text \<open>\<^verbatim>\<open>scheduleProcessing\<close> hands a task to the work pool; \<open>task\<close> further down is the
  body of that task.\<close>

definition scheduleProcessing :: "'t Message \<Rightarrow> ('t, 'x, 'c) DFB \<Rightarrow> ('t, 'x, 'c) DFB" where
  "scheduleProcessing msg s = s\<lparr>scheduled := scheduled s @ [msg]\<rparr>"

definition incoming :: "'t Message \<Rightarrow> ('t, 'x, 'c) DFB \<Rightarrow> ('t, 'x, 'c) DFB" where
  "incoming msg s =
     (if \<not> frameIsActive s then s\<lparr>delayedMessage := delayedMessage s @ [msg]\<rparr>
      else scheduleProcessing msg s)"

definition tileError :: "('t, 'x, 'c) DFB \<Rightarrow> vec2i \<Rightarrow> cfloat outcome" where
  "tileError s t = TileError_read (tileErrorRegion s) t"

text \<open>The loop of \<^verbatim>\<open>startNewFrame\<close> over \<open>t = 0, ..., getTotalTiles() - 1\<close> that counts the
  tiles already converged, on the counter \<open>n\<close>.\<close>

fun countConverged ::
  "('t, 'x, 'c) DFB \<Rightarrow> cfloat \<Rightarrow> nat list \<Rightarrow> nat \<Rightarrow> unit outcome \<times> nat" where
  "countConverged s errorThreshold [] n = (Returned (), n)"
| "countConverged s errorThreshold (t # ts) n =
     (case tileError s (int t, 0) of
        Raised e \<Rightarrow> (Raised e, n)
      | Returned err \<Rightarrow>
          if fle err errorThreshold then
            (if t < length (allTiles s)
             then countConverged s errorThreshold ts
                    (if mine s (allTiles s ! t) then n + 1 else n)
             else (Raised (undefined_behavior ''allTiles read out of range''), n))
          else countConverged s errorThreshold ts n)"

text \<open>\<^verbatim>\<open>startNewFrame\<close>. \<open>masterErrors\<close> and \<open>masterInstances\<close> are what the two broadcasts
  deliver from the master. In a build with assertions the \<^verbatim>\<open>assert\<close> fails before the
  \<^verbatim>\<open>throw\<close> is reached.\<close>

definition startNewFrame ::
  "('t, 'x, 'c) Collaborators \<Rightarrow> cfloat \<Rightarrow> (nat \<Rightarrow> cfloat) \<Rightarrow> (nat \<Rightarrow> int32) \<Rightarrow> ('t, 'x, 'c) DFB
     \<Rightarrow> unit outcome \<times> ('t, 'x, 'c) DFB" where
  "startNewFrame cl errorThreshold masterErrors masterInstances s =
     (let s1 = s\<lparr>nextTileWrite := 0\<rparr>;
          r = (if colorBufferFormat s1 \<noteq> OSP_FB_NONE
               then masterMsgSize (TILE_SIZE s1) (colorBufferFormat s1) (hasDepthBuffer s1)
               else Returned 0)
      in case r of
           Raised e \<Rightarrow> (Raised e, s1)
         | Returned finalTileSize \<Rightarrow>
            (let s2 = (if colorBufferFormat s1 \<noteq> OSP_FB_NONE
                       then s1\<lparr>tileGatherBuffer :=
                                 (tileGatherBuffer s1)
                                   \<lparr>gb_size := length (myTiles s1) * finalTileSize\<rparr>\<rparr>
                       else s1)
             in if frameIsActive s2 then
                  (Raised (if NDEBUG s2
                           then runtime_error ''Attempt to start frame on already started frame!''
                           else assertion_failure ''!frameIsActive''), s2)
                else
                  (let delayed = delayedMessage s2;
                       s3 = s2\<lparr>delayedMessage := [],
                               tileErrorRegion :=
                                 sync (globalRank s2) masterErrors (tileErrorRegion s2),
                               tileInstances :=
                                 bcast (globalRank s2) (getTotalTiles s2) masterInstances
                                   (tileInstances s2)\<rparr>;
                       s4 = (if colorBufferFormat s3 = OSP_FB_NONE
                             then s3\<lparr>tileIDs := [], tileErrors := []\<rparr> else s3);
                       s5 = s4\<lparr>myTiles := map (newFrame cl (tileInstances s4)) (myTiles s4),
                               numTilesCompletedThisFrame := 0\<rparr>;
                       c = (if hasAccumBuffer s5
                            then countConverged s5 errorThreshold [0..<getTotalTiles s5] 0
                            else (Returned (), 0));
                       s6 = s5\<lparr>numTilesCompletedThisFrame := snd c\<rparr>
                   in case fst c of
                        Raised e \<Rightarrow> (Raised e, s6)
                      | Returned u \<Rightarrow>
                         (let s7 = s6\<lparr>frameIsDone := False, frameIsActive := True\<rparr>;
                              s8 = foldl (\<lambda>a msg. scheduleProcessing msg a) s7 delayed;
                              fc = isFrameComplete 0 s8
                          in (Returned (),
                              if fst fc then closeCurrentFrame (snd fc) else snd fc)))))"

text \<open>\<^verbatim>\<open>beginFrame\<close> resets the cancel flag and calls \<^verbatim>\<open>FrameBuffer::beginFrame\<close>, which is
  missing; by the comment in \<^verbatim>\<open>clear\<close> (\<^verbatim>\<open>we increment at the start of the frame\<close>) it
  increments \<^verbatim>\<open>frameID\<close>. The hooks \<^verbatim>\<open>beginFrame\<close> and \<^verbatim>\<open>endFrame\<close> of the pixel operation
  act outside the object and are left out.\<close>

definition beginFrame :: "('t, 'x, 'c) DFB \<Rightarrow> ('t, 'x, 'c) DFB" where
  "beginFrame s = s\<lparr>cancelRendering := False, frameID := frameID s + 1\<rparr>"

subsection \<open>Tile lookup\<close>

definition getTileIDof :: "('t, 'x, 'c) DFB \<Rightarrow> vec2i \<Rightarrow> int" where
  "getTileIDof s c =
     cdiv (fst c) (int (TILE_SIZE s)) + cdiv (snd c) (int (TILE_SIZE s)) * fst (numTiles s)"

text \<open>\<^verbatim>\<open>allTiles[getTileIDof(coords)]\<close>: the vector is not range-checked.\<close>

definition getTileDescFor :: "('t, 'x, 'c) DFB \<Rightarrow> vec2i \<Rightarrow> TileDesc outcome" where
  "getTileDescFor s c =
     (if 0 \<le> getTileIDof s c \<and> getTileIDof s c < int (length (allTiles s))
      then Returned (allTiles s ! nat (getTileIDof s c))
      else Raised (undefined_behavior ''allTiles read out of range''))"

subsection \<open>Completing a tile\<close>

text \<open>\<^verbatim>\<open>tileIsCompleted\<close>, called by a tile's \<^verbatim>\<open>process\<close> on the tile \<open>td\<close>. Its two
  branches (worker, master) are the same statements. The tile as the kernels leave it is
  stored back in \<open>myTiles\<close>; the message copied into the gather buffer carries the tile's
  contents as payload. A copy that does not fit the buffer is undefined.\<close>

definition storeTile :: "'x TileData \<Rightarrow> 'x TileData list \<Rightarrow> 'x TileData list" where
  "storeTile td tds = map (\<lambda>d. if tileID d = tileID td then td else d) tds"

definition tileIsCompleted ::
  "('t, 'x, 'c) Collaborators \<Rightarrow> 'x TileData \<Rightarrow> ('t, 'x, 'c) DFB
     \<Rightarrow> unit outcome \<times> ('t, 'x, 'c) DFB" where
  "tileIsCompleted cl td0 s0 =
     (let td1 = postAccum cl td0;
          td = (if colorBufferFormat s0 \<noteq> OSP_FB_NONE
                then DFB_writeTile cl (colorBufferFormat s0) td1 else td1);
          s = s0\<lparr>myTiles := storeTile td (myTiles s0)\<rparr>;
          r = (if colorBufferFormat s = OSP_FB_NONE then
                 (Returned (),
                  s\<lparr>tileIDs := tileIDs s @ [(cdiv (fst (tile_begin td)) (int (TILE_SIZE s)),
                                              cdiv (snd (tile_begin td)) (int (TILE_SIZE s)))],
                    tileErrors := tileErrors s @ [error_t td]\<rparr>)
               else
                 (case MasterTileMessageBuilder_ctor (TILE_SIZE s) (colorBufferFormat s)
                         (hasDepthBuffer s) (hasNormalBuffer s) (hasAlbedoBuffer s)
                         (tile_begin td) (error_t td) of
                    Raised e \<Rightarrow> (Raised e, s)
                  | Returned b \<Rightarrow>
                     (let tileMsg = (message b)\<lparr>payload := Some (contents td)\<rparr>;
                          n = nextTileWrite s;
                          s' = s\<lparr>nextTileWrite := n + size_m tileMsg\<rparr>
                      in if n + size_m tileMsg \<le> gb_size (tileGatherBuffer s')
                         then (Returned (),
                               s'\<lparr>tileGatherBuffer :=
                                    (tileGatherBuffer s')
                                      \<lparr>gb_writes :=
                                         gb_writes (tileGatherBuffer s') @ [(n, tileMsg)]\<rparr>\<rparr>)
                         else (Raised (undefined_behavior
                                 ''memcpy past the end of tileGatherBuffer''), s'))))
      in case fst r of
           Raised e \<Rightarrow> (Raised e, snd r)
         | Returned u \<Rightarrow>
            (let fc = isFrameComplete 1 (snd r)
             in (Returned (), if fst fc then closeCurrentFrame (snd fc) else snd fc)))"

text \<open>\<^verbatim>\<open>((TileData*)tileDesc)->process(tile)\<close>: the descriptor of a tile of another rank
  is no \<^verbatim>\<open>TileData\<close>, and the cast is undefined for it.\<close>

definition processTile ::
  "('t, 'x, 'c) Collaborators \<Rightarrow> TileDesc \<Rightarrow> 't \<Rightarrow> ('t, 'x, 'c) DFB
     \<Rightarrow> unit outcome \<times> ('t, 'x, 'c) DFB" where
  "processTile cl tileDesc tile0 s =
     (case List.find (\<lambda>d. tileID d = tileID tileDesc) (myTiles s) of
        None \<Rightarrow> (Raised (undefined_behavior ''TileDesc cast to TileData''), s)
      | Some td \<Rightarrow>
         (let p = process cl tile0 td;
              s' = s\<lparr>myTiles := storeTile (fst p) (myTiles s)\<rparr>
          in if snd p then tileIsCompleted cl (fst p) s' else (Returned (), s')))"

subsection \<open>The message router\<close>

definition processMessage_WriteTile ::
  "('t, 'x, 'c) Collaborators \<Rightarrow> 't WriteTileMessage \<Rightarrow> ('t, 'x, 'c) DFB
     \<Rightarrow> unit outcome \<times> ('t, 'x, 'c) DFB" where
  "processMessage_WriteTile cl msg s =
     (case getTileDescFor s (coords_w msg) of
        Raised e \<Rightarrow> (Raised e, s)
      | Returned tileDesc \<Rightarrow> processTile cl tileDesc (preAccum cl (tile msg)) s)"

text \<open>The body of the task that \<^verbatim>\<open>scheduleProcessing\<close> schedules. Casting a message of
  \<^verbatim>\<open>sizeof(TileMessage)\<close> bytes to a \<^verbatim>\<open>WriteTileMessage\<close> reads past its end.\<close>

definition task ::
  "('t, 'x, 'c) Collaborators \<Rightarrow> 't Message \<Rightarrow> ('t, 'x, 'c) DFB
     \<Rightarrow> unit outcome \<times> ('t, 'x, 'c) DFB" where
  "task cl message0 s =
     (if command_of message0 AND MASTER_WRITE_TILE_I8 \<noteq> 0 then
        (Raised (runtime_error ''#dfb: master msg should not be scheduled!''), s)
      else if command_of message0 AND MASTER_WRITE_TILE_F32 \<noteq> 0 then
        (Raised (runtime_error ''#dfb: master msg should not be scheduled!''), s)
      else if command_of message0 AND WORKER_WRITE_TILE \<noteq> 0 then
        (case message0 of
           Msg_WriteTileMessage msg \<Rightarrow> processMessage_WriteTile cl msg s
         | Msg_TileMessage msg \<Rightarrow>
             (Raised (undefined_behavior ''message shorter than a WriteTileMessage''), s))
      else (Raised (runtime_error ''#dfb: unknown tile type processed!''), s))"

text \<open>The work pool runs the \<open>i\<close>-th pending task.\<close>

definition runTask ::
  "('t, 'x, 'c) Collaborators \<Rightarrow> nat \<Rightarrow> ('t, 'x, 'c) DFB \<Rightarrow> unit outcome \<times> ('t, 'x, 'c) DFB" where
  "runTask cl i s =
     (if i < length (scheduled s)
      then task cl (scheduled s ! i)
             (s\<lparr>scheduled := take i (scheduled s) @ drop (Suc i) (scheduled s)\<rparr>)
      else (Returned (), s))"

definition sendCancelRenderingMessage :: "('t, 'x, 'c) DFB \<Rightarrow> ('t, 'x, 'c) DFB" where
  "sendCancelRenderingMessage s =
     s\<lparr>sent := sent s @
         map (\<lambda>rank. (rank, Msg_TileMessage \<lparr>command = CANCEL_RENDERING\<rparr>))
           [0..<numGlobalRanks s]\<rparr>"

definition setTile ::
  "('t, 'x, 'c) Collaborators \<Rightarrow> 't \<Rightarrow> ('t, 'x, 'c) DFB \<Rightarrow> unit outcome \<times> ('t, 'x, 'c) DFB" where
  "setTile cl tile0 s =
     (case getTileDescFor s (region_lower cl tile0) of
        Raised e \<Rightarrow> (Raised e, s)
      | Returned tileDesc \<Rightarrow>
          if \<not> mine s tileDesc then
            (Returned (),
             s\<lparr>sent := sent s @
                 [(ownerID tileDesc,
                   Msg_WriteTileMessage
                     \<lparr>command = WORKER_WRITE_TILE, coords_w = region_lower cl tile0, tile = tile0\<rparr>)]\<rparr>)
          else if \<not> frameIsActive s then
            (Raised (runtime_error ''#dfb: cannot setTile if frame is inactive!''), s)
          else processTile cl tileDesc tile0 s)"

subsection \<open>The master assembler\<close>

text \<open>The body of the two loops of \<^verbatim>\<open>processMessage(MasterTileMessage_FB<ColorT> *)\<close> for
  a pixel that is not skipped. \<open>hasD\<close> and \<open>hasA\<close> say whether the pointers \<^verbatim>\<open>depth\<close> and
  \<^verbatim>\<open>aux\<close> are set. The buffers of the local frame buffer are stores over all offsets.\<close>

definition writePixel ::
  "('t, 'x, 'c) DFB \<Rightarrow> 'c MasterTileMessage_FB_Depth_Aux \<Rightarrow> bool \<Rightarrow> bool \<Rightarrow> int \<Rightarrow> int
     \<Rightarrow> 'c LocalFrameBuffer \<Rightarrow> 'c LocalFrameBuffer" where
  "writePixel s msg hasD hasA iy ix fb =
     (let iiy = iy + snd (coords msg);
          iix = ix + fst (coords msg);
          dst = iix + iiy * fst (numPixels s);
          src = ix + iy * int (TILE_SIZE s);
          fb1 = fb\<lparr>colorBuffer := (colorBuffer fb)(dst := color msg src)\<rparr>;
          fb2 = (if hasD then fb1\<lparr>depthBuffer := (depthBuffer fb1)(dst := depth msg src)\<rparr>
                 else fb1);
          fb3 = (if hasA \<and> hasNormalBuffer s
                 then fb2\<lparr>normalBuffer := (normalBuffer fb2)(dst := normal msg src)\<rparr>
                 else fb2)
      in if hasA \<and> hasAlbedoBuffer s
         then fb3\<lparr>albedoBuffer := (albedoBuffer fb3)(dst := albedo msg src)\<rparr>
         else fb3)"

text \<open>The inner loop over \<open>ix\<close> and the outer loop over \<open>iy\<close>, each over the list of the
  values its counter takes; a pixel outside the image is skipped (\<^verbatim>\<open>continue\<close>).\<close>

fun pixelLoop_x ::
  "('t, 'x, 'c) DFB \<Rightarrow> 'c MasterTileMessage_FB_Depth_Aux \<Rightarrow> bool \<Rightarrow> bool \<Rightarrow> int \<Rightarrow> int list
     \<Rightarrow> 'c LocalFrameBuffer \<Rightarrow> 'c LocalFrameBuffer" where
  "pixelLoop_x s msg hasD hasA iy [] fb = fb"
| "pixelLoop_x s msg hasD hasA iy (ix # ixs) fb =
     (if ix + fst (coords msg) \<ge> fst (numPixels s)
      then pixelLoop_x s msg hasD hasA iy ixs fb
      else pixelLoop_x s msg hasD hasA iy ixs (writePixel s msg hasD hasA iy ix fb))"

fun pixelLoop_y ::
  "('t, 'x, 'c) DFB \<Rightarrow> 'c MasterTileMessage_FB_Depth_Aux \<Rightarrow> bool \<Rightarrow> bool \<Rightarrow> int list
     \<Rightarrow> 'c LocalFrameBuffer \<Rightarrow> 'c LocalFrameBuffer" where
  "pixelLoop_y s msg hasD hasA [] fb = fb"
| "pixelLoop_y s msg hasD hasA (iy # iys) fb =
     (if iy + snd (coords msg) \<ge> snd (numPixels s)
      then pixelLoop_y s msg hasD hasA iys fb
      else pixelLoop_y s msg hasD hasA iys
             (pixelLoop_x s msg hasD hasA iy (map int [0..<TILE_SIZE s]) fb))"

text \<open>What the assembler does to the local frame buffer \<open>fb\<close> for the message \<open>msg\<close>.\<close>

definition assemble ::
  "('t, 'x, 'c) DFB \<Rightarrow> 'c MasterTileMessage_FB_Depth_Aux \<Rightarrow> 'c LocalFrameBuffer
     \<Rightarrow> 'c LocalFrameBuffer" where
  "assemble s msg fb =
     pixelLoop_y s msg
       (hasDepthBuffer s \<and> command msg AND MASTER_TILE_HAS_DEPTH \<noteq> 0)
       (command msg AND MASTER_TILE_HAS_AUX \<noteq> 0)
       (map int [0..<TILE_SIZE s]) fb"

text \<open>\<^verbatim>\<open>processMessage(MasterTileMessage_FB<ColorT> *)\<close>, for both colour types. The message
  is given as the largest struct it may be cast to; the depth and auxiliary arrays are read
  only under their flags. Without a local frame buffer the pointer read is undefined.\<close>

definition processMessage_Master ::
  "'c MasterTileMessage_FB_Depth_Aux \<Rightarrow> ('t, 'x, 'c) DFB \<Rightarrow> unit outcome \<times> ('t, 'x, 'c) DFB" where
  "processMessage_Master msg s =
     (let r = (if hasVarianceBuffer s \<and> flt (error msg) PosInf
               then TileError_update
                      (cdiv (fst (coords msg)) (int (TILE_SIZE s)),
                       cdiv (snd (coords msg)) (int (TILE_SIZE s)))
                      (error msg) (tileErrorRegion s)
               else (Returned (), tileErrorRegion s));
          s1 = s\<lparr>tileErrorRegion := snd r\<rparr>
      in case fst r of
           Raised e \<Rightarrow> (Raised e, s1)
         | Returned u \<Rightarrow>
            (case localFBonMaster s1 of
               None \<Rightarrow> (Raised (undefined_behavior ''localFBonMaster is null''), s1)
             | Some fb \<Rightarrow> (Returned (), s1\<lparr>localFBonMaster := Some (assemble s1 msg fb)\<rparr>)))"

subsection \<open>The final gather\<close>

text \<open>The loop of \<^verbatim>\<open>gatherFinalTiles\<close> on the master over the slots of the gathered
  buffer; \<open>gathered tile\<close> is the message found in slot \<open>tile\<close>. Compression and the MPI
  calls move bytes between ranks and leave the object as it is.\<close>

fun masterWrite ::
  "(nat \<Rightarrow> 'c MasterTileMessage_FB_Depth_Aux) \<Rightarrow> nat list \<Rightarrow> ('t, 'x, 'c) DFB
     \<Rightarrow> unit outcome \<times> ('t, 'x, 'c) DFB" where
  "masterWrite gathered [] s = (Returned (), s)"
| "masterWrite gathered (t # ts) s =
     (if command (gathered t) AND MASTER_WRITE_TILE_I8 \<noteq> 0
         \<or> command (gathered t) AND MASTER_WRITE_TILE_F32 \<noteq> 0
      then (case processMessage_Master (gathered t) s of
              (Raised e, s') \<Rightarrow> (Raised e, s')
            | (Returned u, s') \<Rightarrow> masterWrite gathered ts s')
      else (Raised (runtime_error ''#dfb: non-master tile in final gather!''), s))"

definition gatherFinalTiles ::
  "(nat \<Rightarrow> 'c MasterTileMessage_FB_Depth_Aux) \<Rightarrow> ('t, 'x, 'c) DFB
     \<Rightarrow> unit outcome \<times> ('t, 'x, 'c) DFB" where
  "gatherFinalTiles gathered s =
     (case masterMsgSize (TILE_SIZE s) (colorBufferFormat s) (hasDepthBuffer s) of
        Raised e \<Rightarrow> (Raised e, s)
      | Returned tileSize \<Rightarrow>
          if IamTheMaster (globalRank s)
          then masterWrite gathered [0..<getTotalTiles s] s
          else (Returned (), s))"

text \<open>\<^verbatim>\<open>gatherFinalErrors\<close>: on the master, the tile ids and errors of all ranks.\<close>

fun updateErrors :: "(vec2i \<times> cfloat) list \<Rightarrow> TileError \<Rightarrow> unit outcome \<times> TileError" where
  "updateErrors [] te = (Returned (), te)"
| "updateErrors ((tid, err) # es) te =
     (if flt err PosInf
      then (case TileError_update tid err te of
              (Raised e, te') \<Rightarrow> (Raised e, te')
            | (Returned u, te') \<Rightarrow> updateErrors es te')
      else updateErrors es te)"

definition gatherFinalErrors ::
  "(vec2i \<times> cfloat) list \<Rightarrow> ('t, 'x, 'c) DFB \<Rightarrow> unit outcome \<times> ('t, 'x, 'c) DFB" where
  "gatherFinalErrors gatheredErrors s =
     (if IamTheMaster (globalRank s)
      then (case updateErrors gatheredErrors (tileErrorRegion s) of
              (r, te) \<Rightarrow> (r, s\<lparr>tileErrorRegion := te\<rparr>))
      else (Returned (), s))"

text \<open>\<^verbatim>\<open>waitUntilFinished\<close> waits for \<^verbatim>\<open>frameIsDone\<close>; called on a frame that is not done
  it does not return (\<open>None\<close>) until another thread closes the frame.\<close>

definition waitUntilFinished ::
  "(nat \<Rightarrow> 'c MasterTileMessage_FB_Depth_Aux) \<Rightarrow> (vec2i \<times> cfloat) list \<Rightarrow> ('t, 'x, 'c) DFB
     \<Rightarrow> (unit outcome \<times> ('t, 'x, 'c) DFB) option" where
  "waitUntilFinished gathered gatheredErrors s =
     (if \<not> frameIsDone s then None
      else if colorBufferFormat s \<noteq> OSP_FB_NONE then Some (gatherFinalTiles gathered s)
      else if hasVarianceBuffer s then Some (gatherFinalErrors gatheredErrors s)
      else Some (Returned (), s))"

subsection \<open>Mapping, clearing, accumulation ids\<close>

text \<open>\<^verbatim>\<open>mapBuffer\<close> and \<^verbatim>\<open>unmap\<close> hand over to the local frame buffer; the value returned
  is the channel mapped.\<close>

definition mapBuffer ::
  "OSPFrameBufferChannel \<Rightarrow> ('t, 'x, 'c) DFB
     \<Rightarrow> OSPFrameBufferChannel outcome \<times> ('t, 'x, 'c) DFB" where
  "mapBuffer channel s =
     (case localFBonMaster s of
        None \<Rightarrow>
          (Raised (runtime_error
             ''#osp:mpi:dfb: tried to 'ospMap()' a frame buffer that doesn't have a host-side correspondence''),
           s)
      | Some fb \<Rightarrow> (Returned channel, s))"

definition unmap :: "('t, 'x, 'c) DFB \<Rightarrow> unit outcome \<times> ('t, 'x, 'c) DFB" where
  "unmap s =
     (case localFBonMaster s of
        None \<Rightarrow>
          (Raised (runtime_error
             ''#osp:mpi:dfb: tried to 'ospUnmap()' a frame buffer that doesn't have a host-side color buffer''),
           s)
      | Some fb \<Rightarrow> (Returned (), s))"

text \<open>\<^verbatim>\<open>memset\<close> over the first \<^verbatim>\<open>getTotalTiles()\<close> entries of an array.\<close>

definition zeroFirst :: "nat \<Rightarrow> int32 list \<Rightarrow> int32 list" where
  "zeroFirst n xs = replicate n 0 @ drop n xs"

definition clear ::
  "('t, 'x, 'c) Collaborators \<Rightarrow> OSPFrameBufferChannel set \<Rightarrow> ('t, 'x, 'c) DFB
     \<Rightarrow> unit outcome \<times> ('t, 'x, 'c) DFB" where
  "clear cl fbChannelFlags s =
     (let s1 = s\<lparr>frameID := - 1\<rparr>;
          accum = (hasAccumBuffer s1 \<and> OSP_FB_ACCUM \<in> fbChannelFlags);
          cleared = (if accum then {OSP_FB_ACCUM} else {})
                    \<union> (if accum \<and> hasVarianceBuffer s1 then {OSP_FB_VARIANCE} else {})
                    \<union> (if hasDepthBuffer s1 \<and> OSP_FB_DEPTH \<in> fbChannelFlags
                        then {OSP_FB_DEPTH} else {})
                    \<union> (if OSP_FB_COLOR \<in> fbChannelFlags then {OSP_FB_COLOR} else {});
          s2 = s1\<lparr>myTiles := map (clearTile cl cleared) (myTiles s1)\<rparr>
      in if accum then
           (if getTotalTiles s2 \<le> length (tileAccumID s2)
            then (Returned (),
                  s2\<lparr>tileAccumID := zeroFirst (getTotalTiles s2) (tileAccumID s2),
                     tileErrorRegion := TileError_clear (tileErrorRegion s2)\<rparr>)
            else (Raised (undefined_behavior ''memset past the end of tileAccumID''), s2))
         else (Returned (), s2))"

definition accumID :: "vec2i \<Rightarrow> ('t, 'x, 'c) DFB \<Rightarrow> int32 outcome \<times> ('t, 'x, 'c) DFB" where
  "accumID t s =
     (if \<not> hasAccumBuffer s then (Returned 0, s)
      else
        (let tileNr = snd t * fst (numTiles s) + fst t
         in if 0 \<le> tileNr \<and> tileNr < int (length (tileInstances s))
               \<and> tileNr < int (length (tileAccumID s))
            then (Returned (tileAccumID s ! nat tileNr),
                  s\<lparr>tileInstances :=
                      (tileInstances s)[nat tileNr := tileInstances s ! nat tileNr + 1]\<rparr>)
            else (Raised (undefined_behavior ''tile number out of range''), s)))"

text \<open>\<^verbatim>\<open>endFrame\<close>. The \<^verbatim>\<open>++\<close> on an \<^verbatim>\<open>int32\<close> is the addition of 32-bit words.\<close>

definition endFrame ::
  "('t, 'x, 'c) Collaborators \<Rightarrow> cfloat \<Rightarrow> ('t, 'x, 'c) DFB
     \<Rightarrow> cfloat outcome \<times> ('t, 'x, 'c) DFB" where
  "endFrame cl errorThreshold s =
     (if getTotalTiles s \<le> length (tileInstances s) then
        (let s1 = s\<lparr>tileInstances := zeroFirst (getTotalTiles s) (tileInstances s)\<rparr>
         in if getTotalTiles s1 \<le> length (tileAccumID s1) then
              (let s2 = s1\<lparr>tileAccumID :=
                             map (\<lambda>a. a + 1) (take (getTotalTiles s1) (tileAccumID s1))
                             @ drop (getTotalTiles s1) (tileAccumID s1)\<rparr>
               in if IamTheMaster (globalRank s2)
                  then (Returned (fst (refine cl errorThreshold (tileErrorRegion s2))),
                        s2\<lparr>tileErrorRegion :=
                             snd (refine cl errorThreshold (tileErrorRegion s2))\<rparr>)
                  else (Returned PosInf, s2))
            else (Raised (undefined_behavior ''tileAccumID written out of range''), s1))
      else (Raised (undefined_behavior ''memset past the end of tileInstances''), s))"

subsection \<open>The operations of a frame\<close>

text \<open>The member functions that the host, the transport and the work pool call between
  \<^verbatim>\<open>beginFrame\<close> and \<^verbatim>\<open>endFrame\<close> (section 4.E of the spec has \<^verbatim>\<open>clear\<close> and
  \<^verbatim>\<open>setFrameMode\<close> on an idle frame buffer only), and the object after one of them,
  whatever its outcome. A \<^verbatim>\<open>waitUntilFinished\<close> that does not return leaves the object as
  it is.\<close>

datatype ('t, 'c) FrameOp =
    Op_startNewFrame cfloat "nat \<Rightarrow> cfloat" "nat \<Rightarrow> int32"
  | Op_setTile 't
  | Op_incoming "'t Message"
  | Op_runTask nat
  | Op_waitUntilFinished "nat \<Rightarrow> 'c MasterTileMessage_FB_Depth_Aux" "(vec2i \<times> cfloat) list"
  | Op_accumID vec2i
  | Op_tileError vec2i
  | Op_mapBuffer OSPFrameBufferChannel
  | Op_unmap
  | Op_sendCancelRenderingMessage

fun frameOp ::
  "('t, 'x, 'c) Collaborators \<Rightarrow> ('t, 'c) FrameOp \<Rightarrow> ('t, 'x, 'c) DFB \<Rightarrow> ('t, 'x, 'c) DFB" where
  "frameOp cl (Op_startNewFrame thr me mi) s = snd (startNewFrame cl thr me mi s)"
| "frameOp cl (Op_setTile t) s = snd (setTile cl t s)"
| "frameOp cl (Op_incoming m) s = incoming m s"
| "frameOp cl (Op_runTask i) s = snd (runTask cl i s)"
| "frameOp cl (Op_waitUntilFinished g ge) s =
     (case waitUntilFinished g ge s of None \<Rightarrow> s | Some r \<Rightarrow> snd r)"
| "frameOp cl (Op_accumID t) s = snd (accumID t s)"
| "frameOp cl (Op_tileError t) s = s"
| "frameOp cl (Op_mapBuffer ch) s = snd (mapBuffer ch s)"
| "frameOp cl Op_unmap s = snd (unmap s)"
| "frameOp cl Op_sendCancelRenderingMessage s = sendCancelRenderingMessage s"

definition frameOps ::
  "('t, 'x, 'c) Collaborators \<Rightarrow> ('t, 'c) FrameOp list \<Rightarrow> ('t, 'x, 'c) DFB \<Rightarrow> ('t, 'x, 'c) DFB" where
  "frameOps cl ops s = foldl (\<lambda>a op. frameOp cl op a) s ops"

subsection \<open>The object as its constructor leaves it\<close>

text \<open>What the constructor establishes: one descriptor per tile of the grid, the owned
  tiles being the descriptors of this rank in the same order, one accumulation id and one
  instance counter per tile, and an error region that is empty or as large as the grid.\<close>

definition consistent :: "('t, 'x, 'c) DFB \<Rightarrow> bool" where
  "consistent s \<longleftrightarrow>
     length (allTiles s) = getTotalTiles s
     \<and> map TileDesc.truncate (myTiles s) = filter (mine s) (allTiles s)
     \<and> length (tileAccumID s) = getTotalTiles s
     \<and> length (tileInstances s) = getTotalTiles s
     \<and> (tiles (tileErrorRegion s) \<le> 0
        \<or> (numTiles_e (tileErrorRegion s) = numTiles s
           \<and> tiles (tileErrorRegion s) = int (getTotalTiles s)
           \<and> length (tileErrorBuffer (tileErrorRegion s)) = getTotalTiles s))"

text \<open>Tile \<open>t\<close> is owned by this rank and its stored error, read the way
  \<^verbatim>\<open>startNewFrame\<close> reads it, is at most the threshold.\<close>

definition convergedAtStart :: "('t, 'x, 'c) DFB \<Rightarrow> cfloat \<Rightarrow> nat \<Rightarrow> bool" where
  "convergedAtStart s errorThreshold t \<longleftrightarrow>
     mine s (allTiles s ! t)
     \<and> (case tileError s (int t, 0) of
          Returned err \<Rightarrow> fle err errorThreshold
        | Raised e \<Rightarrow> False)"

text \<open>The four buffers of the local frame buffer hold at offset \<open>j\<close> in \<open>fb'\<close> what they
  hold in \<open>fb\<close>.\<close>

definition unchangedAt :: "'c LocalFrameBuffer \<Rightarrow> 'c LocalFrameBuffer \<Rightarrow> int \<Rightarrow> bool" where
  "unchangedAt fb fb' j \<longleftrightarrow>
     colorBuffer fb' j = colorBuffer fb j \<and> depthBuffer fb' j = depthBuffer fb j
     \<and> normalBuffer fb' j = normalBuffer fb j \<and> albedoBuffer fb' j = albedoBuffer fb j"

subsection \<open>An instance\<close>

text \<open>Collaborators for running the model on inputs: a tile is given by the corner of its
  region, the contents of an owned tile count the contributions of the frame, every
  contribution completes its tile, and the error region refines to \<open>+inf\<close>.\<close>

definition example_collaborators :: "(vec2i, nat, nat) Collaborators" where
  "example_collaborators =
     \<lparr>new_WriteMultipleTile = (PosInf, 0),
      new_AlphaBlendTile_simple = (PosInf, 0),
      new_ZCompositeTile = (\<lambda>n. (PosInf, 0)),
      newFrame = (\<lambda>inst td. td\<lparr>contents := 0\<rparr>),
      process = (\<lambda>t td. (td\<lparr>contents := contents td + 1\<rparr>, True)),
      postAccum = (\<lambda>td. td),
      DFB_writeTile = (\<lambda>fmt td. td),
      preAccum = (\<lambda>t. t),
      clearTile = (\<lambda>chs td. td),
      refine = (\<lambda>thr te. (PosInf, te)),
      new_LocalFrameBuffer =
        (\<lambda>np fmt chs. \<lparr>colorBuffer = (\<lambda>i. 0), depthBuffer = (\<lambda>i. PosInf),
                        normalBuffer = (\<lambda>i. (Finite 0, Finite 0, Finite 0)),
                        albedoBuffer = (\<lambda>i. (Finite 0, Finite 0, Finite 0))\<rparr>),
      region_lower = (\<lambda>t. t)\<rparr>"

text \<open>The frame buffer of the spec's scenarios on worker rank 1 of three ranks, the master
  not being a worker: six tiles of side 2 (an image of 6 by 4 pixels), 8-bit colour.\<close>

definition example_worker :: "OSPFrameBufferChannel set \<Rightarrow> (vec2i, nat, nat) DFB" where
  "example_worker channels =
     snd (DFB_ctor example_collaborators 2 True 1 3 (6, 4) OSP_FB_RGBA8 channels False)"

text \<open>The master of three ranks with an image of 3 by 3 pixels, colour and depth, and a
  master tile message for the tile at (2, 2), of which only the pixel (2, 2) is in the image.\<close>

definition example_master :: "(vec2i, nat, nat) DFB" where
  "example_master =
     snd (DFB_ctor example_collaborators 2 True 0 3 (3, 3) OSP_FB_RGBA8
            {OSP_FB_COLOR, OSP_FB_DEPTH} False)"

definition example_message :: "nat MasterTileMessage_FB_Depth_Aux" where
  "example_message =
     \<lparr>command = MASTER_WRITE_TILE_I8 OR MASTER_TILE_HAS_DEPTH, coords = (2, 2),
      error = PosInf, color = (\<lambda>i. 7), depth = (\<lambda>i. Finite 1),
      normal = (\<lambda>i. (Finite 0, Finite 0, Finite 1)),
      albedo = (\<lambda>i. (Finite 1, Finite 1, Finite 1))\<rparr>"

text \<open>What the master broadcasts at the start of a frame in these runs: unknown errors,
  one instance of every tile.\<close>

definition example_errors :: "nat \<Rightarrow> cfloat" where
  "example_errors t = PosInf"

definition example_instances :: "nat \<Rightarrow> int32" where
  "example_instances t = 1"

section \<open>Properties: evaluation of the model\<close>

lemmas rank_defs =
  ownerIDFromTileID_def numWorkers_def globalRankFromWorkerRank_def masterRank_def
  IamTheMaster_def IamAWorker_def

lemma truncate_createTile:
  "TileDesc.truncate (createTile cl s xy tid oid) = \<lparr>tile_begin = xy, tileID = tid, ownerID = oid\<rparr>"
  by (simp add: createTile_def mkTileData_def TileDesc.truncate_def split: FrameMode.splits)

lemma if_pair: "(if c then (a, b) else (a', b')) = (if c then a else a', if c then b else b')"
  by simp

lemma if_truncate_createTile:
  "(if c then a @ [TileDesc.truncate (createTile cl s xy tid oid)]
    else a @ [\<lparr>tile_begin = xy, tileID = tid, ownerID = oid\<rparr>])
   = a @ [\<lparr>tile_begin = xy, tileID = tid, ownerID = oid\<rparr>]"
  by (simp add: truncate_createTile)

lemma createTiles_y_six:
  assumes "numPixels s = (6, 4)" "TILE_SIZE s = 2" "numGlobalRanks s = 3"
  shows "snd (snd (snd (createTiles_y cl s 0 0 acc))) =
     snd acc @ map (\<lambda>(xy, t). \<lparr>tile_begin = xy, tileID = t,
                      ownerID = (if masterIsAWorker s then t mod 3 else 1 + t mod 2)\<rparr>)
        [((0, 0), 0), ((2, 0), 1), ((4, 0), 2), ((0, 2), 3), ((2, 2), 4), ((4, 2), 5)]"
  using assms
  by (cases "masterIsAWorker s")
     (simp_all add: createTiles_y.simps createTiles_x.simps rank_defs if_truncate_createTile if_pair del: One_nat_def split del: if_split)

lemma createTiles_y_six_my:
  assumes "numPixels s = (6, 4)" "TILE_SIZE s = 2" "numGlobalRanks s = 3" "globalRank s = 1" "\<not> masterIsAWorker s"
  shows "fst (snd (snd (createTiles_y cl s 0 0 acc))) =
     fst acc @ [createTile cl s (0, 0) 0 1, createTile cl s (4, 0) 2 1, createTile cl s (2, 2) 4 1]"
   and "fst (createTiles_y cl s 0 0 acc) = Returned ()"
  using assms
  by (simp_all add: createTiles_y.simps createTiles_x.simps rank_defs del: One_nat_def)

lemma allTiles_DFB_ctor:
  "allTiles (snd (DFB_ctor cl T nd r R np fmt chs miaw))
   = snd (snd (snd (createTiles_y cl (DFB_init T nd r R np fmt chs miaw) 0 0 ([], []))))"
  by (simp add: DFB_ctor_def createTiles_def DFB_init_def FrameBuffer_ctor_def Let_def split: prod.splits outcome.splits)

lemma DFB_init_fields:
  "numPixels (DFB_init T nd r R np fmt chs miaw) = np"
  "TILE_SIZE (DFB_init T nd r R np fmt chs miaw) = T"
  "numGlobalRanks (DFB_init T nd r R np fmt chs miaw) = R"
  "globalRank (DFB_init T nd r R np fmt chs miaw) = r"
  "masterIsAWorker (DFB_init T nd r R np fmt chs miaw) = miaw"
  by (simp_all add: DFB_init_def FrameBuffer_ctor_def Let_def)

lemma owners_idle_master: "map ownerID (allTiles (snd (DFB_ctor cl 2 nd r 3 (6, 4) fmt chs False)))
       = [1, 2, 1, 2, 1, 2]"
   by (simp add: allTiles_DFB_ctor createTiles_y_six DFB_init_fields)

lemma owners_working_master: "map ownerID (allTiles (snd (DFB_ctor cl 2 nd r 3 (6, 4) fmt chs True)))
       = [0, 1, 2, 0, 1, 2]"
   by (simp add: allTiles_DFB_ctor createTiles_y_six DFB_init_fields)


lemma example_worker_eq:
  "example_worker chs =
     (DFB_init 2 True 1 3 (6, 4) OSP_FB_RGBA8 chs False)
       \<lparr>myTiles :=
          [\<lparr>tile_begin = (0, 0), tileID = 0, ownerID = 1, error_t = PosInf, contents = 0\<rparr>,
           \<lparr>tile_begin = (4, 0), tileID = 2, ownerID = 1, error_t = PosInf, contents = 0\<rparr>,
           \<lparr>tile_begin = (2, 2), tileID = 4, ownerID = 1, error_t = PosInf, contents = 0\<rparr>],
        allTiles :=
          [\<lparr>tile_begin = (0, 0), tileID = 0, ownerID = 1\<rparr>,
           \<lparr>tile_begin = (2, 0), tileID = 1, ownerID = 2\<rparr>,
           \<lparr>tile_begin = (4, 0), tileID = 2, ownerID = 1\<rparr>,
           \<lparr>tile_begin = (0, 2), tileID = 3, ownerID = 2\<rparr>,
           \<lparr>tile_begin = (2, 2), tileID = 4, ownerID = 1\<rparr>,
           \<lparr>tile_begin = (4, 2), tileID = 5, ownerID = 2\<rparr>],
        tileAccumID := [0, 0, 0, 0, 0, 0],
        tileInstances := [0, 0, 0, 0, 0, 0]\<rparr>"
proof -
  define s0 :: "(vec2i, nat, nat) DFB" where "s0 = DFB_init 2 True 1 3 (6, 4) OSP_FB_RGBA8 chs False"
  have f: "numPixels s0 = (6, 4)" "TILE_SIZE s0 = 2" "numGlobalRanks s0 = 3" "globalRank s0 = 1"
    "\<not> masterIsAWorker s0" "frameMode s0 = WRITE_MULTIPLE" "numTiles s0 = (3, 2)"
    "myTiles s0 = []" "allTiles s0 = []"
    by (simp_all add: s0_def DFB_init_def FrameBuffer_ctor_def Let_def divRoundUp_def cdiv_def)
  obtain r tid my al where c: "createTiles_y example_collaborators s0 0 0 ([], []) = (r, tid, my, al)"
    by (metis prod_cases4)
  have r: "r = Returned ()"
    using createTiles_y_six_my(2) [of s0 example_collaborators "([], [])"] f c by simp
  have my: "my = [\<lparr>tile_begin = (0, 0), tileID = 0, ownerID = 1, error_t = PosInf, contents = 0\<rparr>,
           \<lparr>tile_begin = (4, 0), tileID = 2, ownerID = 1, error_t = PosInf, contents = 0\<rparr>,
           \<lparr>tile_begin = (2, 2), tileID = 4, ownerID = 1, error_t = PosInf, contents = 0\<rparr>]"
    using createTiles_y_six_my(1) [of s0 example_collaborators "([], [])"] f c
    by (simp add: createTile_def mkTileData_def example_collaborators_def)
  have al: "al = [\<lparr>tile_begin = (0, 0), tileID = 0, ownerID = 1\<rparr>,
           \<lparr>tile_begin = (2, 0), tileID = 1, ownerID = 2\<rparr>,
           \<lparr>tile_begin = (4, 0), tileID = 2, ownerID = 1\<rparr>,
           \<lparr>tile_begin = (0, 2), tileID = 3, ownerID = 2\<rparr>,
           \<lparr>tile_begin = (2, 2), tileID = 4, ownerID = 1\<rparr>,
           \<lparr>tile_begin = (4, 2), tileID = 5, ownerID = 2\<rparr>]"
    using createTiles_y_six [of s0 example_collaborators "([], [])"] f c by simp
  have six: "replicate 6 (0 :: int32) = [0, 0, 0, 0, 0, 0]"
    by (simp add: numeral_eq_Suc)
  show ?thesis
    unfolding example_worker_def DFB_ctor_def s0_def [symmetric]
    by (simp add: createTiles_def c r my al f getTotalTiles_def rank_defs six)
qed

lemma mine_cong: "globalRank s' = globalRank s \<Longrightarrow> mine s' = mine s"
  by (rule ext) (simp add: mine_def)

lemma consistent_cong:
  assumes "allTiles s' = allTiles s" "myTiles s' = myTiles s" "tileAccumID s' = tileAccumID s"
    "tileInstances s' = tileInstances s" "tileErrorRegion s' = tileErrorRegion s"
    "numTiles s' = numTiles s" "globalRank s' = globalRank s"
  shows "consistent s' = consistent s"
  by (simp add: consistent_def getTotalTiles_def assms mine_cong [OF assms(7)])

lemma example_worker_fields:
  "TILE_SIZE (example_worker chs) = 2"
  "NDEBUG (example_worker chs) = True"
  "globalRank (example_worker chs) = 1"
  "numGlobalRanks (example_worker chs) = 3"
  "numPixels (example_worker chs) = (6, 4)"
  "numTiles (example_worker chs) = (3, 2)"
  "colorBufferFormat (example_worker chs) = OSP_FB_RGBA8"
  "hasDepthBuffer (example_worker chs) = (OSP_FB_DEPTH \<in> chs)"
  "hasAccumBuffer (example_worker chs) = (OSP_FB_ACCUM \<in> chs)"
  "hasVarianceBuffer (example_worker chs) = (OSP_FB_VARIANCE \<in> chs \<and> OSP_FB_ACCUM \<in> chs)"
  "masterIsAWorker (example_worker chs) = False"
  "frameIsActive (example_worker chs) = False"
  "frameIsDone (example_worker chs) = False"
  "delayedMessage (example_worker chs) = []"
  "scheduled (example_worker chs) = []"
  "localFBonMaster (example_worker chs) = None"
  "tileAccumID (example_worker chs) = [0, 0, 0, 0, 0, 0]"
  "tileInstances (example_worker chs) = [0, 0, 0, 0, 0, 0]"
  "tileErrorRegion (example_worker chs) =
     TileError_ctor (if OSP_FB_VARIANCE \<in> chs \<and> OSP_FB_ACCUM \<in> chs then (3, 2) else (0, 0))"
  "allTiles (example_worker chs) =
          [\<lparr>tile_begin = (0, 0), tileID = 0, ownerID = 1\<rparr>,
           \<lparr>tile_begin = (2, 0), tileID = 1, ownerID = 2\<rparr>,
           \<lparr>tile_begin = (4, 0), tileID = 2, ownerID = 1\<rparr>,
           \<lparr>tile_begin = (0, 2), tileID = 3, ownerID = 2\<rparr>,
           \<lparr>tile_begin = (2, 2), tileID = 4, ownerID = 1\<rparr>,
           \<lparr>tile_begin = (4, 2), tileID = 5, ownerID = 2\<rparr>]"
  "myTiles (example_worker chs) =
          [\<lparr>tile_begin = (0, 0), tileID = 0, ownerID = 1, error_t = PosInf, contents = 0\<rparr>,
           \<lparr>tile_begin = (4, 0), tileID = 2, ownerID = 1, error_t = PosInf, contents = 0\<rparr>,
           \<lparr>tile_begin = (2, 2), tileID = 4, ownerID = 1, error_t = PosInf, contents = 0\<rparr>]"
  by (simp_all add: example_worker_eq DFB_init_def FrameBuffer_ctor_def Let_def divRoundUp_def
      cdiv_def del: One_nat_def)

lemma example_worker_consistent: "consistent (example_worker chs)"
  by (simp add: consistent_def getTotalTiles_def example_worker_fields mine_def TileDesc.truncate_def
      TileError_ctor_def del: One_nat_def)

section \<open>Properties: the constructor\<close>

text \<open>The two loops of \<open>createTiles\<close> run once per tile of the grid and keep the owned
  tiles in step with the descriptors, so a constructor that returns leaves a consistent
  object, for every image size, tile size and rank.\<close>

lemma iterations_step:
  fixes W x :: int and T :: nat
  assumes "0 < T" "x < W"
  shows "nat ((W - x + int T - 1) div int T) = Suc (nat ((W - (x + int T) + int T - 1) div int T))"
proof -
  have "(W - x + int T - 1) div int T = (W - (x + int T) + int T - 1) div int T + 1"
  proof -
    have "W - x + int T - 1 = (W - (x + int T) + int T - 1) + 1 * int T" by simp
    then show ?thesis using assms(1) by (metis div_mult_self1 add.commute of_nat_0_less_iff less_irrefl)
  qed
  moreover have "0 \<le> (W - (x + int T) + int T - 1) div int T"
    using assms by (simp add: pos_imp_zdiv_nonneg_iff)
  ultimately show ?thesis by simp
qed

lemma iterations_done:
  fixes W x :: int and T :: nat
  assumes "0 < T" "\<not> x < W"
  shows "nat ((W - x + int T - 1) div int T) = 0"
proof -
  have "W - x + int T - 1 < int T" using assms by simp
  then have "(W - x + int T - 1) div int T \<le> (int T - 1) div int T"
    using assms(1) by (intro zdiv_mono1) simp_all
  then have "(W - x + int T - 1) div int T \<le> 0"
    using assms(1) by simp
  then show ?thesis by simp
qed

lemma createTiles_x_inv:
  assumes "0 < TILE_SIZE s"
    and "createTiles_x cl s y x tid acc = (Returned (), tid', acc')"
    and "map TileDesc.truncate (fst acc) = filter (mine s) (snd acc)"
  shows "map TileDesc.truncate (fst acc') = filter (mine s) (snd acc')
     \<and> length (snd acc') = length (snd acc)
         + nat ((fst (numPixels s) - x + int (TILE_SIZE s) - 1) div int (TILE_SIZE s))"
  using assms
proof (induction cl s y x tid acc rule: createTiles_x.induct)
  case (1 cl s y x tid acc)
  show ?case
  proof (cases "x < fst (numPixels s)")
    case False
    then have "createTiles_x cl s y x tid acc = (Returned (), tid, acc)"
      by (simp add: createTiles_x.simps)
    with "1.prems" False show ?thesis
      by (simp add: iterations_done)
  next
    case True
    obtain oid where oid: "ownerIDFromTileID (masterIsAWorker s) (numGlobalRanks s) tid = Returned oid"
      using "1.prems"(1,2) True
      by (cases "ownerIDFromTileID (masterIsAWorker s) (numGlobalRanks s) tid")
         (simp_all add: createTiles_x.simps [of cl s y x tid acc])
    let ?acc1 = "if oid = globalRank s
                then (fst acc @ [createTile cl s (x, y) tid oid],
                      snd acc @ [TileDesc.truncate (createTile cl s (x, y) tid oid)])
                else (fst acc,
                      snd acc @ [\<lparr>tile_begin = (x, y), tileID = tid, ownerID = oid\<rparr>])"
    have rec: "createTiles_x cl s y (x + int (TILE_SIZE s)) (tid + 1) ?acc1 = (Returned (), tid', acc')"
      using "1.prems"(1,2) True oid
      by (simp add: createTiles_x.simps [of cl s y x tid acc])
    have inv1: "map TileDesc.truncate (fst ?acc1) = filter (mine s) (snd ?acc1)"
      using "1.prems"(3) by (simp add: truncate_createTile mine_def [abs_def])
    have len1: "length (snd ?acc1) = Suc (length (snd acc))"
      by simp
    from "1.IH" [OF _ oid "1.prems"(1) rec inv1] True "1.prems"(1)
    have "map TileDesc.truncate (fst acc') = filter (mine s) (snd acc')
     \<and> length (snd acc') = length (snd ?acc1)
         + nat ((fst (numPixels s) - (x + int (TILE_SIZE s)) + int (TILE_SIZE s) - 1)
                div int (TILE_SIZE s))"
      by simp
    then show ?thesis
      using iterations_step [OF "1.prems"(1) True] len1 by simp
  qed
qed

lemma createTiles_y_inv:
  assumes "0 < TILE_SIZE s"
    and "createTiles_y cl s y tid acc = (Returned (), tid', acc')"
    and "map TileDesc.truncate (fst acc) = filter (mine s) (snd acc)"
  shows "map TileDesc.truncate (fst acc') = filter (mine s) (snd acc')
     \<and> length (snd acc') = length (snd acc)
         + nat ((snd (numPixels s) - y + int (TILE_SIZE s) - 1) div int (TILE_SIZE s))
           * nat ((fst (numPixels s) + int (TILE_SIZE s) - 1) div int (TILE_SIZE s))"
  using assms
proof (induction cl s y tid acc rule: createTiles_y.induct)
  case (1 cl s y tid acc)
  show ?case
  proof (cases "y < snd (numPixels s)")
    case False
    then have "createTiles_y cl s y tid acc = (Returned (), tid, acc)"
      by (simp add: createTiles_y.simps)
    with "1.prems" False show ?thesis
      by (simp add: iterations_done)
  next
    case True
    obtain r tid1 acc1 where row: "createTiles_x cl s y 0 tid acc = (r, tid1, acc1)"
      by (metis prod_cases3)
    have r: "r = Returned ()"
      using "1.prems"(1,2) True row
      by (cases r) (simp_all add: createTiles_y.simps [of cl s y tid acc])
    have rec: "createTiles_y cl s (y + int (TILE_SIZE s)) tid1 acc1 = (Returned (), tid', acc')"
      using "1.prems"(1,2) True row r
      by (simp add: createTiles_y.simps [of cl s y tid acc])
    from createTiles_x_inv [OF "1.prems"(1) row [unfolded r] "1.prems"(3)]
    have x: "map TileDesc.truncate (fst acc1) = filter (mine s) (snd acc1)"
      "length (snd acc1) = length (snd acc)
         + nat ((fst (numPixels s) + int (TILE_SIZE s) - 1) div int (TILE_SIZE s))"
      by simp_all
    from "1.IH" [OF _ _ _ _ "1.prems"(1) rec x(1)] True "1.prems"(1) row r
    have "map TileDesc.truncate (fst acc') = filter (mine s) (snd acc')
     \<and> length (snd acc') = length (snd acc1)
         + nat ((snd (numPixels s) - (y + int (TILE_SIZE s)) + int (TILE_SIZE s) - 1)
                div int (TILE_SIZE s))
           * nat ((fst (numPixels s) + int (TILE_SIZE s) - 1) div int (TILE_SIZE s))"
      by simp
    then show ?thesis
      using iterations_step [OF "1.prems"(1) True] x(2) by simp
  qed
qed


lemma cdiv_nonneg: "0 \<le> a \<Longrightarrow> 0 < b \<Longrightarrow> cdiv a b = a div b"
  by (cases "a = 0") (simp_all add: cdiv_def)

lemma DFB_ctor_consistent:
  assumes "0 < T" "0 \<le> fst np" "0 \<le> snd np"
    and "DFB_ctor cl T nd r R np fmt chs miaw = (Returned (), s)"
  shows "consistent s"
proof -
  define s0 :: "('a, 'b, 'c) DFB" where "s0 = DFB_init T nd r R np fmt chs miaw"
  let ?nx = "(fst np + int T - 1) div int T"
  let ?ny = "(snd np + int T - 1) div int T"
  have f: "numPixels s0 = np" "TILE_SIZE s0 = T" "globalRank s0 = r"
    "myTiles s0 = []" "allTiles s0 = []" "numTiles s0 = (?nx, ?ny)"
    "tileErrorRegion s0 = TileError_ctor (if hasVarianceBuffer s0 then (?nx, ?ny) else (0, 0))"
    using assms(1-3)
    by (simp_all add: s0_def DFB_init_def FrameBuffer_ctor_def Let_def divRoundUp_def cdiv_nonneg)
  have nn: "0 \<le> ?nx" "0 \<le> ?ny"
    using assms(1-3) by (simp_all add: pos_imp_zdiv_nonneg_iff)
  obtain r0 tid acc where c: "createTiles_y cl s0 0 0 ([], []) = (r0, tid, acc)"
    by (metis prod_cases3)
  have r0: "r0 = Returned ()"
    using assms(4) c
    by (cases r0) (simp_all add: DFB_ctor_def createTiles_def s0_def [symmetric] f)
  from createTiles_y_inv [of s0 cl 0 0 "([], [])" tid acc] c r0 assms(1) f
  have inv: "map TileDesc.truncate (fst acc) = filter (mine s0) (snd acc)"
    "length (snd acc) = nat ?ny * nat ?nx"
    by simp_all
  let ?N = "nat (?nx * ?ny)"
  have N: "length (snd acc) = ?N"
    using inv(2) nn by (simp add: nat_mult_distrib mult.commute)
  let ?s3 = "s0\<lparr>myTiles := fst acc, allTiles := snd acc,
        tileAccumID := replicate ?N 0, tileInstances := replicate ?N 0\<rparr>"
  have s: "s = ?s3 \<or> (\<exists>fb. s = ?s3\<lparr>localFBonMaster := Some fb\<rparr>)"
    using assms(4) c r0
    by (auto simp add: DFB_ctor_def createTiles_def s0_def [symmetric] f getTotalTiles_def Let_def
        split: if_splits)
  have m: "mine ?s3 = mine s0"
    by (rule mine_cong) simp
  have c3: "consistent ?s3"
    using inv(1) N nn
    by (simp add: consistent_def getTotalTiles_def f m TileError_ctor_def)
  from s show ?thesis
  proof
    assume "s = ?s3"
    with c3 show ?thesis by simp
  next
    assume "\<exists>fb. s = ?s3\<lparr>localFBonMaster := Some fb\<rparr>"
    then obtain fb where fb: "s = ?s3\<lparr>localFBonMaster := Some fb\<rparr>" by blast
    have "consistent (?s3\<lparr>localFBonMaster := Some fb\<rparr>) = consistent ?s3"
      by (rule consistent_cong) simp_all
    with c3 fb show ?thesis by simp
  qed
qed

section \<open>Properties: tile ownership\<close>

text \<open>Claim C1. With \<open>R\<close> ranks, tile \<open>t\<close> belongs to rank \<open>t mod R\<close> when the master is a
  worker, and to the global rank of worker \<open>t mod (R - 1)\<close> when it is not, which is never
  the master. On an image of six tiles and three ranks the constructor gives the tiles the
  owners 1, 2, 1, 2, 1, 2 when the master is not a worker and 0, 1, 2, 0, 1, 2 when it is,
  on every rank.\<close>

theorem ownerIDFromTileID_round_robin:
  "(0 < R \<longrightarrow> ownerIDFromTileID True R t = Returned (t mod R))
   \<and> (1 < R \<longrightarrow>
        ownerIDFromTileID False R t = Returned (globalRankFromWorkerRank (t mod (R - 1)))
        \<and> globalRankFromWorkerRank (t mod (R - 1)) \<noteq> masterRank)
   \<and> map (ownerIDFromTileID False 3) [0, 1, 2, 3, 4, 5] = map Returned [1, 2, 1, 2, 1, 2]
   \<and> map (ownerIDFromTileID True 3) [0, 1, 2, 3, 4, 5] = map Returned [0, 1, 2, 0, 1, 2]
   \<and> map ownerID (allTiles (snd (DFB_ctor cl 2 nd r 3 (6, 4) fmt chs False)))
       = [1, 2, 1, 2, 1, 2]
   \<and> map ownerID (allTiles (snd (DFB_ctor cl 2 nd r 3 (6, 4) fmt chs True)))
       = [0, 1, 2, 0, 1, 2]"
proof -
  have general: "(0 < R \<longrightarrow> ownerIDFromTileID True R t = Returned (t mod R))
      \<and> (1 < R \<longrightarrow>
        ownerIDFromTileID False R t = Returned (globalRankFromWorkerRank (t mod (R - 1)))
        \<and> globalRankFromWorkerRank (t mod (R - 1)) \<noteq> masterRank)"
    by (simp add: rank_defs)
  have six: "map (ownerIDFromTileID False 3) [0, 1, 2, 3, 4, 5] = map Returned [1, 2, 1, 2, 1, 2]"
    "map (ownerIDFromTileID True 3) [0, 1, 2, 3, 4, 5] = map Returned [0, 1, 2, 0, 1, 2]"
    by (simp_all add: rank_defs)
  from general six owners_idle_master [of cl nd r fmt chs]
    owners_working_master [of cl nd r fmt chs]
  show ?thesis by simp
qed

theorem ownerIDFromTileID_round_robin_witness:
  "(0::nat) < 3 \<and> ownerIDFromTileID True 3 4 = Returned 1
   \<and> (1::nat) < 3 \<and> ownerIDFromTileID False 3 4 = Returned 1
   \<and> globalRankFromWorkerRank 0 \<noteq> masterRank"
proof -
  have a: "ownerIDFromTileID True 3 4 = Returned (4 mod 3)"
    using ownerIDFromTileID_round_robin [of 3 4, THEN conjunct1] by simp
  have b: "ownerIDFromTileID False 3 4 = Returned (globalRankFromWorkerRank (4 mod (3 - 1)))
        \<and> globalRankFromWorkerRank (4 mod (3 - 1)) \<noteq> masterRank"
    using ownerIDFromTileID_round_robin [of 3 4, THEN conjunct2, THEN conjunct1] by simp
  from a b show ?thesis by (simp add: globalRankFromWorkerRank_def)
qed

section \<open>Properties: the size of a master tile message\<close>

lemmas size_defs =
  masterMsgSize_def MasterTileMessageBuilder_ctor_def wireTileBytes_def
  sizeof_MasterTileMessage_RGBA_I8_def sizeof_MasterTileMessage_RGBA_F32_def
  sizeof_MasterTileMessage_def sizeof_uint32_def sizeof_vec4f_def sizeof_float_def
  sizeof_vec3f_def

text \<open>In general the builder's message is the wire layout's size plus one more array of
  depth values as soon as depth, normal or albedo is on, and the slot of the gather buffer
  is the wire layout's size without the normals and albedos.\<close>

lemma builder_size_general:
  assumes "fmt \<noteq> OSP_FB_NONE"
  shows "\<exists>b. (MasterTileMessageBuilder_ctor T fmt hasDepth hasNormal hasAlbedo c e
              :: 'x MasterTileMessageBuilder outcome) = Returned b
     \<and> size_m (message b) =
         wireTileBytes T fmt hasDepth hasNormal hasAlbedo
         + (if hasDepth \<or> hasNormal \<or> hasAlbedo then 4 * T * T else 0)"
    and "\<exists>n. masterMsgSize T fmt hasDepth = Returned n
     \<and> n + (if hasNormal \<or> hasAlbedo then 24 * T * T else 0)
         = wireTileBytes T fmt hasDepth hasNormal hasAlbedo"
  using assms by (cases fmt; simp add: size_defs)+

text \<open>Claim C4. For 8-bit colour with depth and tiles of side 2 a slot of the gather
  buffer (\<open>masterMsgSize\<close>, also the stride the master parses with) has 48 bytes, as the wire
  layout says, but the message the builder allocates on tile completion has 64: the builder
  starts from \<open>masterMsgSize\<close>, which counts the depth values, and adds them once more.\<close>

theorem builder_size_differs_from_slot_size:
  "(\<exists>b. (MasterTileMessageBuilder_ctor 2 OSP_FB_RGBA8 True False False c e
           :: 'x MasterTileMessageBuilder outcome) = Returned b
        \<and> size_m (message b) = 64)
   \<and> masterMsgSize 2 OSP_FB_RGBA8 True = Returned 48
   \<and> wireTileBytes 2 OSP_FB_RGBA8 True False False = 48"
  by (simp add: size_defs)

section \<open>Properties: starting a frame\<close>

lemma incoming_inactive:
  "\<not> frameIsActive s \<Longrightarrow>
   foldl (\<lambda>a m. incoming m a) s msgs = s\<lparr>delayedMessage := delayedMessage s @ msgs\<rparr>"
proof (induction msgs arbitrary: s)
  case Nil
  then show ?case by simp
next
  case (Cons m msgs)
  have "\<not> frameIsActive (s\<lparr>delayedMessage := delayedMessage s @ [m]\<rparr>)"
    using Cons.prems by simp
  from Cons.IH [OF this] Cons.prems show ?case
    by (simp add: incoming_def)
qed

lemma foldl_scheduleProcessing:
  "foldl (\<lambda>a m. scheduleProcessing m a) s msgs = s\<lparr>scheduled := scheduled s @ msgs\<rparr>"
  by (induction msgs arbitrary: s) (simp_all add: scheduleProcessing_def)

lemma masterMsgSize_Returned:
  "fmt \<noteq> OSP_FB_NONE \<Longrightarrow> \<exists>n. masterMsgSize T fmt d = Returned n"
  by (cases fmt) (simp_all add: masterMsgSize_def)

lemma countConverged_ok:
  assumes "\<forall>t\<in>set ts. t < length (allTiles s) \<and> (\<exists>e. tileError s (int t, 0) = Returned e)"
  shows "countConverged s thr ts n = (Returned (), n + length (filter (convergedAtStart s thr) ts))"
  using assms
proof (induction ts arbitrary: n)
  case Nil
  then show ?case by simp
next
  case (Cons t ts)
  then obtain e where e: "tileError s (int t, 0) = Returned e" and t: "t < length (allTiles s)"
    by auto
  have IH: "\<And>n. countConverged s thr ts n = (Returned (), n + length (filter (convergedAtStart s thr) ts))"
    using Cons by simp
  have st: "convergedAtStart s thr t \<longleftrightarrow> mine s (allTiles s ! t) \<and> fle e thr"
    by (simp add: convergedAtStart_def e)
  show ?case
    by (simp add: e t IH st)
qed

lemma read_sync:
  assumes "tiles te \<le> 0 \<or> (tiles te = int n \<and> length (tileErrorBuffer te) = n)" "t < n"
  shows "\<exists>e. TileError_read (sync r me te) (int t, 0) = Returned e"
  using assms
  by (auto simp add: TileError_read_def sync_def TileError_index_def bcast_def)




lemma countConverged_synced:
  assumes "consistent s" "N = getTotalTiles s"
    "allTiles s' = allTiles s" "globalRank s' = globalRank s"
    "tileErrorRegion s' = sync (globalRank s) me (tileErrorRegion s)"
  shows "countConverged s' thr [0..<N] 0 =
     (Returned (), length (filter
        (convergedAtStart (s\<lparr>tileErrorRegion := sync (globalRank s) me (tileErrorRegion s)\<rparr>) thr)
        [0..<N]))"
proof -
  have te: "tiles (tileErrorRegion s) \<le> 0
      \<or> (tiles (tileErrorRegion s) = int N \<and> length (tileErrorBuffer (tileErrorRegion s)) = N)"
    using assms(1,2) by (auto simp add: consistent_def)
  have "\<forall>t\<in>set [0..<N]. t < length (allTiles s') \<and> (\<exists>e. tileError s' (int t, 0) = Returned e)"
    using assms read_sync [OF te] by (simp add: consistent_def tileError_def)
  from countConverged_ok [OF this]
  have "countConverged s' thr [0..<N] 0 =
      (Returned (), length (filter (convergedAtStart s' thr) [0..<N]))"
    by simp
  moreover have "convergedAtStart s' thr =
      convergedAtStart (s\<lparr>tileErrorRegion := sync (globalRank s) me (tileErrorRegion s)\<rparr>) thr"
    by (rule ext) (simp add: convergedAtStart_def mine_def tileError_def assms)
  ultimately show ?thesis by simp
qed

lemma startNewFrame_inactive:
  assumes "\<not> frameIsActive s" "consistent s"
  shows "\<exists>s'. startNewFrame cl thr me mi s = (Returned (), s')
           \<and> scheduled s' = scheduled s @ delayedMessage s \<and> delayedMessage s' = []
           \<and> numTilesCompletedThisFrame s' =
               (if hasAccumBuffer s
                then length (filter
                  (convergedAtStart
                     (s\<lparr>tileErrorRegion := sync (globalRank s) me (tileErrorRegion s)\<rparr>) thr)
                  [0..<getTotalTiles s])
                else 0)
           \<and> frameIsDone s' = (\<not> frameIsActive s')
           \<and> frameIsDone s' =
               (numTilesCompletedThisFrame s' =
                 (if IamAWorker (globalRank s) \<or> (IamTheMaster (globalRank s) \<and> masterIsAWorker s)
                  then length (myTiles s) else getTotalTiles s))"
proof -
  obtain n where n: "colorBufferFormat s \<noteq> OSP_FB_NONE \<longrightarrow>
      masterMsgSize (TILE_SIZE s) (colorBufferFormat s) (hasDepthBuffer s) = Returned n"
    using masterMsgSize_Returned by blast
  note cc = countConverged_synced [where me = me and s = s, OF assms(2)]
  show ?thesis
  proof (cases "hasAccumBuffer s")
    case True
    then show ?thesis
      using assms n
      by (simp add: startNewFrame_def Let_def foldl_scheduleProcessing isFrameComplete_def
          closeCurrentFrame_def getTotalTiles_def cc)
  next
    case False
    then show ?thesis
      using assms n
      by (simp add: startNewFrame_def Let_def foldl_scheduleProcessing isFrameComplete_def
          closeCurrentFrame_def getTotalTiles_def)
  qed
qed

text \<open>Claim C2. Messages that arrive through \<open>incoming\<close> while the frame is not active are
  appended to the delayed queue and change nothing else of the object: no task is scheduled
  and no tile is touched. The \<open>startNewFrame\<close> that follows returns, empties the queue and
  has scheduled, after the tasks that were pending, exactly the queued messages, each once,
  in the order of their arrival.\<close>

theorem delayed_messages_replayed_in_order:
  assumes "\<not> frameIsActive s" and "consistent s"
  shows "foldl (\<lambda>a m. incoming m a) s msgs = s\<lparr>delayedMessage := delayedMessage s @ msgs\<rparr>
    \<and> (\<exists>s'. startNewFrame cl thr me mi (foldl (\<lambda>a m. incoming m a) s msgs) = (Returned (), s')
          \<and> scheduled s' = scheduled s @ delayedMessage s @ msgs
          \<and> delayedMessage s' = [])"
proof -
  let ?s1 = "s\<lparr>delayedMessage := delayedMessage s @ msgs\<rparr>"
  have buffered: "foldl (\<lambda>a m. incoming m a) s msgs = ?s1"
    using assms(1) by (rule incoming_inactive)
  have "consistent ?s1 = consistent s"
    by (rule consistent_cong) simp_all
  with assms have "\<not> frameIsActive ?s1" "consistent ?s1"
    by simp_all
  from startNewFrame_inactive [OF this, of cl thr me mi]
  obtain s' where "startNewFrame cl thr me mi ?s1 = (Returned (), s')"
    "scheduled s' = scheduled ?s1 @ delayedMessage ?s1" "delayedMessage s' = []"
    by blast
  then show ?thesis
    by (simp add: buffered)
qed

theorem delayed_messages_replayed_in_order_witness:
  "\<not> frameIsActive (example_worker {}) \<and> consistent (example_worker {})
   \<and> (\<exists>s'. startNewFrame example_collaborators PosInf (\<lambda>t. PosInf) (\<lambda>t. 0)
              (foldl (\<lambda>a m. incoming m a) (example_worker {})
                 [Msg_WriteTileMessage \<lparr>command = WORKER_WRITE_TILE, coords_w = (0, 0), tile = (0, 0)\<rparr>,
                  Msg_TileMessage \<lparr>command = CANCEL_RENDERING\<rparr>])
            = (Returned (), s')
          \<and> scheduled s' =
               [Msg_WriteTileMessage \<lparr>command = WORKER_WRITE_TILE, coords_w = (0, 0), tile = (0, 0)\<rparr>,
                Msg_TileMessage \<lparr>command = CANCEL_RENDERING\<rparr>]
          \<and> delayedMessage s' = [])"
proof -
  have a: "\<not> frameIsActive (example_worker {})"
    by (simp add: example_worker_fields)
  have b: "consistent (example_worker {})"
    by (rule example_worker_consistent)
  have c: "scheduled (example_worker {}) = []" "delayedMessage (example_worker {}) = []"
    by (simp_all add: example_worker_fields)
  from delayed_messages_replayed_in_order [OF a b,
      of "[Msg_WriteTileMessage \<lparr>command = WORKER_WRITE_TILE, coords_w = (0, 0), tile = (0, 0)\<rparr>,
           Msg_TileMessage \<lparr>command = CANCEL_RENDERING\<rparr>]"
         example_collaborators PosInf "\<lambda>t. PosInf" "\<lambda>t. 0", THEN conjunct2]
  have t: "\<exists>s'. startNewFrame example_collaborators PosInf (\<lambda>t. PosInf) (\<lambda>t. 0)
              (foldl (\<lambda>a m. incoming m a) (example_worker {})
                 [Msg_WriteTileMessage \<lparr>command = WORKER_WRITE_TILE, coords_w = (0, 0), tile = (0, 0)\<rparr>,
                  Msg_TileMessage \<lparr>command = CANCEL_RENDERING\<rparr>])
            = (Returned (), s')
          \<and> scheduled s' =
               [Msg_WriteTileMessage \<lparr>command = WORKER_WRITE_TILE, coords_w = (0, 0), tile = (0, 0)\<rparr>,
                Msg_TileMessage \<lparr>command = CANCEL_RENDERING\<rparr>]
          \<and> delayedMessage s' = []"
    by (simp only: c append_Nil)
  from a b t show ?thesis by (intro conjI)
qed

section \<open>Properties: the message router\<close>

lemmas tag_defs =
  MASTER_WRITE_TILE_I8_def MASTER_WRITE_TILE_F32_def MASTER_TILE_HAS_DEPTH_def
  MASTER_TILE_HAS_AUX_def WORKER_WRITE_TILE_def CANCEL_RENDERING_def

lemma runTask_incoming_active:
  "frameIsActive s \<Longrightarrow>
   runTask cl (length (scheduled s)) (incoming m s) = task cl m s"
  by (simp add: runTask_def incoming_def scheduleProcessing_def)

text \<open>Claim C3. The task run for a message whose command is \<^verbatim>\<open>CANCEL_RENDERING\<close>, the
  message \<open>sendCancelRenderingMessage\<close> sends to every rank, raises
  \<^verbatim>\<open>#dfb: unknown tile type processed!\<close> and leaves the object as it was, \<open>cancelRendering\<close>
  included: the router has no branch for the tag. This is so in particular when the
  message comes in through \<open>incoming\<close> on an active frame.\<close>

theorem cancel_message_is_rejected:
  "task cl (Msg_TileMessage \<lparr>command = CANCEL_RENDERING\<rparr>) s
     = (Raised (runtime_error ''#dfb: unknown tile type processed!''), s)
   \<and> runTask cl (length (scheduled s))
        (incoming (Msg_TileMessage \<lparr>command = CANCEL_RENDERING\<rparr>) (s\<lparr>frameIsActive := True\<rparr>))
     = (Raised (runtime_error ''#dfb: unknown tile type processed!''), s\<lparr>frameIsActive := True\<rparr>)
   \<and> map snd (sent (sendCancelRenderingMessage (s\<lparr>sent := []\<rparr>)))
     = replicate (numGlobalRanks s) (Msg_TileMessage \<lparr>command = CANCEL_RENDERING\<rparr>)"
proof -
  have t: "\<And>s. task cl (Msg_TileMessage \<lparr>command = CANCEL_RENDERING\<rparr>) s
     = (Raised (runtime_error ''#dfb: unknown tile type processed!''), s)"
    by (simp add: task_def tag_defs)
  have r: "runTask cl (length (scheduled s))
        (incoming (Msg_TileMessage \<lparr>command = CANCEL_RENDERING\<rparr>) (s\<lparr>frameIsActive := True\<rparr>))
     = (Raised (runtime_error ''#dfb: unknown tile type processed!''), s\<lparr>frameIsActive := True\<rparr>)"
    using runTask_incoming_active [of "s\<lparr>frameIsActive := True\<rparr>" cl] by (simp add: t)
  have m: "map snd (sent (sendCancelRenderingMessage (s\<lparr>sent := []\<rparr>)))
     = replicate (numGlobalRanks s) (Msg_TileMessage \<lparr>command = CANCEL_RENDERING\<rparr>)"
    by (simp add: sendCancelRenderingMessage_def comp_def map_replicate_const)
  from t r m show ?thesis by simp
qed

section \<open>Properties: misuse\<close>

lemma startNewFrame_active:
  "frameIsActive s \<Longrightarrow>
   fst (startNewFrame cl thr me mi s) =
     Raised (if NDEBUG s then runtime_error ''Attempt to start frame on already started frame!''
             else assertion_failure ''!frameIsActive'')"
  by (cases "colorBufferFormat s")
     (simp_all add: startNewFrame_def Let_def masterMsgSize_def)

text \<open>Claim C8. Each of the three misuses fails with a message that names it: \<open>mapBuffer\<close>
  and \<open>unmap\<close> without a local frame buffer on the master, \<open>startNewFrame\<close> on an active
  frame (the exception, or the assertion before it in a build with assertions), and a
  message with the bit \<^verbatim>\<open>MASTER_WRITE_TILE_I8\<close> or \<^verbatim>\<open>MASTER_WRITE_TILE_F32\<close> that comes
  in on an active frame and is run by the work pool.\<close>

theorem misuse_raises:
  "(localFBonMaster s = None \<longrightarrow>
      fst (mapBuffer channel s) = Raised (runtime_error
        ''#osp:mpi:dfb: tried to 'ospMap()' a frame buffer that doesn't have a host-side correspondence'')
      \<and> fst (unmap s) = Raised (runtime_error
        ''#osp:mpi:dfb: tried to 'ospUnmap()' a frame buffer that doesn't have a host-side color buffer''))
   \<and> (frameIsActive s \<longrightarrow>
        fst (startNewFrame cl errorThreshold me mi s) =
          Raised (if NDEBUG s
                  then runtime_error ''Attempt to start frame on already started frame!''
                  else assertion_failure ''!frameIsActive''))
   \<and> (frameIsActive s
        \<and> (command_of m AND MASTER_WRITE_TILE_I8 \<noteq> 0 \<or> command_of m AND MASTER_WRITE_TILE_F32 \<noteq> 0) \<longrightarrow>
        fst (runTask cl (length (scheduled s)) (incoming m s)) =
          Raised (runtime_error ''#dfb: master msg should not be scheduled!''))"
proof -
  have a: "localFBonMaster s = None \<longrightarrow>
      fst (mapBuffer channel s) = Raised (runtime_error
        ''#osp:mpi:dfb: tried to 'ospMap()' a frame buffer that doesn't have a host-side correspondence'')
      \<and> fst (unmap s) = Raised (runtime_error
        ''#osp:mpi:dfb: tried to 'ospUnmap()' a frame buffer that doesn't have a host-side color buffer'')"
    by (simp add: mapBuffer_def unmap_def)
  have b: "frameIsActive s \<longrightarrow>
        fst (startNewFrame cl errorThreshold me mi s) =
          Raised (if NDEBUG s
                  then runtime_error ''Attempt to start frame on already started frame!''
                  else assertion_failure ''!frameIsActive'')"
    using startNewFrame_active by blast
  have c: "frameIsActive s
        \<and> (command_of m AND MASTER_WRITE_TILE_I8 \<noteq> 0 \<or> command_of m AND MASTER_WRITE_TILE_F32 \<noteq> 0) \<longrightarrow>
        fst (runTask cl (length (scheduled s)) (incoming m s)) =
          Raised (runtime_error ''#dfb: master msg should not be scheduled!'')"
    by (auto simp add: runTask_incoming_active task_def)
  from a b c show ?thesis by blast
qed

theorem misuse_raises_witness:
  "localFBonMaster ((example_worker {})\<lparr>frameIsActive := True\<rparr>) = None
   \<and> frameIsActive ((example_worker {})\<lparr>frameIsActive := True\<rparr>)
   \<and> command_of (Msg_TileMessage \<lparr>command = MASTER_WRITE_TILE_I8\<rparr> :: vec2i Message)
        AND MASTER_WRITE_TILE_I8 \<noteq> 0
   \<and> fst (mapBuffer OSP_FB_COLOR ((example_worker {})\<lparr>frameIsActive := True\<rparr>))
       = Raised (runtime_error
        ''#osp:mpi:dfb: tried to 'ospMap()' a frame buffer that doesn't have a host-side correspondence'')
   \<and> fst (unmap ((example_worker {})\<lparr>frameIsActive := True\<rparr>))
       = Raised (runtime_error
        ''#osp:mpi:dfb: tried to 'ospUnmap()' a frame buffer that doesn't have a host-side color buffer'')
   \<and> fst (startNewFrame example_collaborators PosInf (\<lambda>t. PosInf) (\<lambda>t. 0)
             ((example_worker {})\<lparr>frameIsActive := True\<rparr>))
       = Raised (runtime_error ''Attempt to start frame on already started frame!'')
   \<and> fst (runTask example_collaborators 0
             (incoming (Msg_TileMessage \<lparr>command = MASTER_WRITE_TILE_I8\<rparr>)
                ((example_worker {})\<lparr>frameIsActive := True\<rparr>)))
       = Raised (runtime_error ''#dfb: master msg should not be scheduled!'')"
proof -
  let ?s = "(example_worker {})\<lparr>frameIsActive := True\<rparr>"
  let ?m = "Msg_TileMessage \<lparr>command = MASTER_WRITE_TILE_I8\<rparr> :: vec2i Message"
  have h: "localFBonMaster ?s = None" "frameIsActive ?s" "NDEBUG ?s" "scheduled ?s = []"
    by (simp_all add: example_worker_fields)
  have c: "command_of ?m AND MASTER_WRITE_TILE_I8 \<noteq> 0"
    by (simp add: MASTER_WRITE_TILE_I8_def)
  from misuse_raises [of ?s OSP_FB_COLOR example_collaborators PosInf "\<lambda>t. PosInf" "\<lambda>t. 0" ?m] h c
  show ?thesis by simp
qed

section \<open>Properties: accumulation ids and instance counters\<close>

text \<open>Claim C9. Without an accumulation buffer \<open>accumID\<close> returns 0 and leaves the object
  as it is. With one, and a tile number inside the arrays, it returns the tile's
  accumulation id and increments the tile's entry of \<open>tileInstances\<close> by one, leaving the
  other entries and \<open>tileAccumID\<close> alone: the object after the call is not the object
  before it.\<close>

theorem accumID_counts_instances:
  "(\<not> hasAccumBuffer s \<longrightarrow> accumID t s = (Returned 0, s))
   \<and> (hasAccumBuffer s \<and> 0 \<le> snd t * fst (numTiles s) + fst t
        \<and> snd t * fst (numTiles s) + fst t < int (length (tileInstances s))
        \<and> snd t * fst (numTiles s) + fst t < int (length (tileAccumID s)) \<longrightarrow>
        fst (accumID t s) = Returned (tileAccumID s ! nat (snd t * fst (numTiles s) + fst t))
        \<and> tileInstances (snd (accumID t s)) ! nat (snd t * fst (numTiles s) + fst t)
            = tileInstances s ! nat (snd t * fst (numTiles s) + fst t) + 1
        \<and> (\<forall>i. i \<noteq> nat (snd t * fst (numTiles s) + fst t) \<longrightarrow>
              tileInstances (snd (accumID t s)) ! i = tileInstances s ! i)
        \<and> length (tileInstances (snd (accumID t s))) = length (tileInstances s)
        \<and> tileAccumID (snd (accumID t s)) = tileAccumID s
        \<and> snd (accumID t s) \<noteq> s)"
proof -
  have a: "\<not> hasAccumBuffer s \<longrightarrow> accumID t s = (Returned 0, s)"
    by (simp add: accumID_def)
  have b: "hasAccumBuffer s \<and> 0 \<le> snd t * fst (numTiles s) + fst t
        \<and> snd t * fst (numTiles s) + fst t < int (length (tileInstances s))
        \<and> snd t * fst (numTiles s) + fst t < int (length (tileAccumID s)) \<longrightarrow>
        fst (accumID t s) = Returned (tileAccumID s ! nat (snd t * fst (numTiles s) + fst t))
        \<and> tileInstances (snd (accumID t s)) ! nat (snd t * fst (numTiles s) + fst t)
            = tileInstances s ! nat (snd t * fst (numTiles s) + fst t) + 1
        \<and> (\<forall>i. i \<noteq> nat (snd t * fst (numTiles s) + fst t) \<longrightarrow>
              tileInstances (snd (accumID t s)) ! i = tileInstances s ! i)
        \<and> length (tileInstances (snd (accumID t s))) = length (tileInstances s)
        \<and> tileAccumID (snd (accumID t s)) = tileAccumID s
        \<and> snd (accumID t s) \<noteq> s"
  proof (intro impI, elim conjE)
    let ?nr = "snd t * fst (numTiles s) + fst t"
    assume h: "hasAccumBuffer s" "0 \<le> ?nr" "?nr < int (length (tileInstances s))"
      "?nr < int (length (tileAccumID s))"
    then have e: "accumID t s = (Returned (tileAccumID s ! nat ?nr),
        s\<lparr>tileInstances := (tileInstances s)[nat ?nr := tileInstances s ! nat ?nr + 1]\<rparr>)"
      by (simp add: accumID_def Let_def)
    have n: "nat ?nr < length (tileInstances s)" using h by linarith
    have "tileInstances (snd (accumID t s)) ! nat ?nr \<noteq> tileInstances s ! nat ?nr"
      using n by (simp add: e)
    then have ne: "snd (accumID t s) \<noteq> s" by metis
    show "fst (accumID t s) = Returned (tileAccumID s ! nat ?nr)
        \<and> tileInstances (snd (accumID t s)) ! nat ?nr = tileInstances s ! nat ?nr + 1
        \<and> (\<forall>i. i \<noteq> nat ?nr \<longrightarrow> tileInstances (snd (accumID t s)) ! i = tileInstances s ! i)
        \<and> length (tileInstances (snd (accumID t s))) = length (tileInstances s)
        \<and> tileAccumID (snd (accumID t s)) = tileAccumID s
        \<and> snd (accumID t s) \<noteq> s"
      using n ne by (simp add: e)
  qed
  from a b show ?thesis by blast
qed

theorem accumID_counts_instances_witness:
  "\<not> hasAccumBuffer (example_worker {})
   \<and> accumID (1, 1) (example_worker {}) = (Returned 0, example_worker {})
   \<and> hasAccumBuffer (example_worker {OSP_FB_ACCUM})
   \<and> fst (accumID (1, 1) (example_worker {OSP_FB_ACCUM})) = Returned 0
   \<and> tileInstances (snd (accumID (1, 1) (example_worker {OSP_FB_ACCUM}))) = [0, 0, 0, 0, 1, 0]
   \<and> snd (accumID (1, 1) (example_worker {OSP_FB_ACCUM})) \<noteq> example_worker {OSP_FB_ACCUM}"
proof -
  have a: "\<not> hasAccumBuffer (example_worker {})"
    by (simp add: example_worker_fields)
  have b: "hasAccumBuffer (example_worker {OSP_FB_ACCUM})"
    by (simp add: example_worker_fields)
  have i: "tileInstances (snd (accumID (1, 1) (example_worker {OSP_FB_ACCUM}))) = [0, 0, 0, 0, 1, 0]"
    by (simp add: accumID_def example_worker_fields Let_def)
  from accumID_counts_instances [of "example_worker {}" "(1, 1)"] a
  have c: "accumID (1, 1) (example_worker {}) = (Returned 0, example_worker {})"
    by simp
  from accumID_counts_instances [of "example_worker {OSP_FB_ACCUM}" "(1, 1)"] b
  have d: "fst (accumID (1, 1) (example_worker {OSP_FB_ACCUM})) = Returned 0
     \<and> snd (accumID (1, 1) (example_worker {OSP_FB_ACCUM})) \<noteq> example_worker {OSP_FB_ACCUM}"
    by (simp add: example_worker_fields)
  from a b c d i show ?thesis by simp
qed

section \<open>Properties: local tiles\<close>

lemma tileIsCompleted_keeps:
  "tileAccumID (snd (tileIsCompleted cl td s)) = tileAccumID s"
  "tileInstances (snd (tileIsCompleted cl td s)) = tileInstances s"
  "numTiles (snd (tileIsCompleted cl td s)) = numTiles s"
  "delayedMessage (snd (tileIsCompleted cl td s)) = delayedMessage s"
  by (simp_all add: tileIsCompleted_def Let_def isFrameComplete_def closeCurrentFrame_def
      split: outcome.splits)

lemma processTile_keeps:
  "tileAccumID (snd (processTile cl d t s)) = tileAccumID s"
  "tileInstances (snd (processTile cl d t s)) = tileInstances s"
  "numTiles (snd (processTile cl d t s)) = numTiles s"
  "delayedMessage (snd (processTile cl d t s)) = delayedMessage s"
  by (simp_all add: processTile_def Let_def tileIsCompleted_keeps split: option.splits)

text \<open>Claim C10. For a tile of the calling rank \<open>setTile\<close> on a frame that is not active
  raises \<^verbatim>\<open>#dfb: cannot setTile if frame is inactive!\<close> and leaves the whole object, the
  tile's state included, as it was; and whether the frame is active or not, \<open>setTile\<close> for
  an own tile never puts anything into the delayed queue.\<close>

theorem setTile_inactive_raises:
  assumes "getTileDescFor s (region_lower cl t) = Returned d" and "mine s d"
  shows "(\<not> frameIsActive s \<longrightarrow>
            setTile cl t s
              = (Raised (runtime_error ''#dfb: cannot setTile if frame is inactive!''), s))
         \<and> delayedMessage (snd (setTile cl t s)) = delayedMessage s"
  using assms by (simp add: setTile_def processTile_keeps)

theorem setTile_inactive_raises_witness:
  "getTileDescFor (example_worker {}) (region_lower example_collaborators (4, 1))
     = Returned \<lparr>tile_begin = (4, 0), tileID = 2, ownerID = 1\<rparr>
   \<and> mine (example_worker {}) \<lparr>tile_begin = (4, 0), tileID = 2, ownerID = 1\<rparr>
   \<and> \<not> frameIsActive (example_worker {})
   \<and> setTile example_collaborators (4, 1) (example_worker {})
       = (Raised (runtime_error ''#dfb: cannot setTile if frame is inactive!''), example_worker {})"
proof -
  have a: "getTileDescFor (example_worker {}) (region_lower example_collaborators (4, 1))
     = Returned \<lparr>tile_begin = (4, 0), tileID = 2, ownerID = 1\<rparr>"
    by (simp add: getTileDescFor_def getTileIDof_def example_worker_fields cdiv_def
        example_collaborators_def)
  have b: "mine (example_worker {}) \<lparr>tile_begin = (4, 0), tileID = 2, ownerID = 1\<rparr>"
    by (simp add: mine_def example_worker_fields)
  have c: "\<not> frameIsActive (example_worker {})"
    by (simp add: example_worker_fields)
  from setTile_inactive_raises [OF a b] c
  have "setTile example_collaborators (4, 1) (example_worker {})
       = (Raised (runtime_error ''#dfb: cannot setTile if frame is inactive!''), example_worker {})"
    by simp
  with a b c show ?thesis by simp
qed

section \<open>Properties: tiles converged at the start of a frame\<close>

lemma fle_PosInf: "fle e PosInf \<longleftrightarrow> e \<noteq> NaN"
  by (cases e) simp_all

lemma length_filter_upt:
  "length xs = n \<Longrightarrow> length (filter (\<lambda>t. P (xs ! t)) [0..<n]) = length (filter P xs)"
proof (induction xs arbitrary: n rule: rev_induct)
  case Nil
  then show ?case by simp
next
  case (snoc x xs)
  then obtain m where m: "n = Suc m" "length xs = m" by auto
  have "filter (\<lambda>t. P ((xs @ [x]) ! t)) [0..<m] = filter (\<lambda>t. P (xs ! t)) [0..<m]"
    by (rule filter_cong) (simp_all add: m nth_append)
  then show ?case
    using snoc.IH [OF m(2)] by (simp add: m nth_append)
qed

text \<open>Claim C5, as the code has it. On a frame buffer with an accumulation buffer,
  \<open>startNewFrame\<close> on an inactive frame returns with \<open>numTilesCompletedThisFrame\<close> equal to the
  number of tiles that this rank owns and whose stored error, after the error sync, is at
  most the threshold. On a worker, or on a master that is a worker, the frame is closed on
  return exactly when that number is the number of owned tiles; so it is closed when the
  threshold is \<open>+inf\<close> and no stored error is NaN.\<close>

theorem startNewFrame_counts_owned_converged_tiles:
  assumes "\<not> frameIsActive s" and "consistent s" and "hasAccumBuffer s"
  shows "\<exists>s'. startNewFrame cl errorThreshold me mi s = (Returned (), s')
     \<and> numTilesCompletedThisFrame s' =
          length (filter
            (convergedAtStart
               (s\<lparr>tileErrorRegion := sync (globalRank s) me (tileErrorRegion s)\<rparr>) errorThreshold)
            [0..<getTotalTiles s])
     \<and> (frameIsDone s' \<longleftrightarrow> \<not> frameIsActive s')
     \<and> (IamAWorker (globalRank s) \<or> masterIsAWorker s \<longrightarrow>
          (frameIsDone s' \<longleftrightarrow> numTilesCompletedThisFrame s' = length (myTiles s))
          \<and> (errorThreshold = PosInf
              \<and> (\<forall>t < getTotalTiles s.
                    tileError (s\<lparr>tileErrorRegion := sync (globalRank s) me (tileErrorRegion s)\<rparr>)
                      (int t, 0) \<noteq> Returned NaN) \<longrightarrow>
              frameIsDone s' \<and> \<not> frameIsActive s'))"
proof -
  let ?S = "s\<lparr>tileErrorRegion := sync (globalRank s) me (tileErrorRegion s)\<rparr>"
  let ?N = "getTotalTiles s"
  let ?expected = "if IamAWorker (globalRank s) \<or> masterIsAWorker s
             then length (myTiles s) else getTotalTiles s"
  from startNewFrame_inactive [OF assms(1,2), of cl errorThreshold me mi] assms(3)
  obtain s' where s': "startNewFrame cl errorThreshold me mi s = (Returned (), s')"
    "numTilesCompletedThisFrame s' = length (filter (convergedAtStart ?S errorThreshold) [0..<?N])"
    "frameIsDone s' = (\<not> frameIsActive s')"
    "frameIsDone s' = (numTilesCompletedThisFrame s' =
                 (if IamAWorker (globalRank s) \<or> (IamTheMaster (globalRank s) \<and> masterIsAWorker s)
                  then length (myTiles s) else getTotalTiles s))"
    by auto
  have exp: "(if IamAWorker (globalRank s) \<or> (IamTheMaster (globalRank s) \<and> masterIsAWorker s)
                  then length (myTiles s) else getTotalTiles s) = ?expected"
    by (auto simp add: IamAWorker_def IamTheMaster_def masterRank_def)
  have inf: "frameIsDone s' \<and> \<not> frameIsActive s'"
    if h: "errorThreshold = PosInf" "IamAWorker (globalRank s) \<or> masterIsAWorker s"
      "\<forall>t < ?N. tileError ?S (int t, 0) \<noteq> Returned NaN"
  proof -
    have te: "tiles (tileErrorRegion s) \<le> 0
      \<or> (tiles (tileErrorRegion s) = int ?N \<and> length (tileErrorBuffer (tileErrorRegion s)) = ?N)"
      using assms(2) by (auto simp add: consistent_def)
    have "filter (convergedAtStart ?S PosInf) [0..<?N]
        = filter (\<lambda>t. mine s (allTiles s ! t)) [0..<?N]"
    proof (rule filter_cong [OF refl])
      fix t assume "t \<in> set [0..<?N]"
      then have t: "t < ?N" by simp
      from read_sync [OF te t, of "globalRank s" me]
      obtain e where e: "tileError ?S (int t, 0) = Returned e"
        by (auto simp add: tileError_def)
      with h(3) t have "e \<noteq> NaN" by auto
      then show "convergedAtStart ?S PosInf t = mine s (allTiles s ! t)"
        by (simp add: convergedAtStart_def e fle_PosInf mine_def)
    qed
    moreover have "length (filter (\<lambda>t. mine s (allTiles s ! t)) [0..<?N])
        = length (filter (mine s) (allTiles s))"
      using assms(2) by (intro length_filter_upt) (simp add: consistent_def)
    moreover have "length (filter (mine s) (allTiles s)) = length (myTiles s)"
      using assms(2) by (metis consistent_def length_map)
    ultimately have "numTilesCompletedThisFrame s' = length (myTiles s)"
      using s'(2) h(1) by simp
    with s'(3,4) exp h(2) show ?thesis by simp
  qed
  from s' exp inf show ?thesis by auto
qed

theorem startNewFrame_counts_owned_converged_tiles_witness:
  "\<not> frameIsActive (example_worker {OSP_FB_ACCUM})
   \<and> consistent (example_worker {OSP_FB_ACCUM})
   \<and> hasAccumBuffer (example_worker {OSP_FB_ACCUM})
   \<and> IamAWorker (globalRank (example_worker {OSP_FB_ACCUM}))
   \<and> tileError
        ((example_worker {OSP_FB_ACCUM})
           \<lparr>tileErrorRegion := sync (globalRank (example_worker {OSP_FB_ACCUM})) example_errors
                                 (tileErrorRegion (example_worker {OSP_FB_ACCUM}))\<rparr>) (2, 0)
       = Returned PosInf
   \<and> (\<exists>s'. startNewFrame example_collaborators PosInf example_errors example_instances
              (example_worker {OSP_FB_ACCUM}) = (Returned (), s')
          \<and> numTilesCompletedThisFrame s' = 3
          \<and> frameIsDone s' \<and> \<not> frameIsActive s')"
proof -
  let ?s = "example_worker {OSP_FB_ACCUM}"
  let ?S = "?s\<lparr>tileErrorRegion := sync (globalRank ?s) example_errors (tileErrorRegion ?s)\<rparr>"
  have a: "\<not> frameIsActive ?s" "hasAccumBuffer ?s" "IamAWorker (globalRank ?s)"
    "length (myTiles ?s) = 3" "getTotalTiles ?s = 6"
    by (simp_all add: example_worker_fields IamAWorker_def getTotalTiles_def)
  have b: "consistent ?s"
    by (rule example_worker_consistent)
  have e: "\<And>t. tileError ?S t = Returned PosInf"
    by (simp add: tileError_def TileError_read_def sync_def example_worker_fields TileError_ctor_def)
  from startNewFrame_counts_owned_converged_tiles [OF a(1) b a(2),
      of example_collaborators PosInf example_errors example_instances] a e
  have "\<exists>s'. startNewFrame example_collaborators PosInf example_errors example_instances ?s
            = (Returned (), s')
          \<and> numTilesCompletedThisFrame s' = 3
          \<and> frameIsDone s' \<and> \<not> frameIsActive s'"
    by auto
  with a b e show ?thesis by simp
qed

text \<open>Claim C5, as stated, fails without an accumulation buffer: on the worker of the
  example every tile's stored error is \<open>+inf\<close>, at most the threshold \<open>+inf\<close>, and yet after
  \<open>startNewFrame\<close> no tile is counted and the frame is active and not done.\<close>

theorem startNewFrame_without_accumulation_counterexample:
  "fst (startNewFrame example_collaborators PosInf example_errors example_instances
          (example_worker {})) = Returned ()
   \<and> map (tileError (snd (startNewFrame example_collaborators PosInf example_errors
                             example_instances (example_worker {}))))
       [(0, 0), (1, 0), (2, 0), (3, 0), (4, 0), (5, 0)]
      = [Returned PosInf, Returned PosInf, Returned PosInf, Returned PosInf, Returned PosInf,
         Returned PosInf]
   \<and> fle PosInf PosInf
   \<and> length (myTiles (example_worker {})) = 3
   \<and> numTilesCompletedThisFrame
        (snd (startNewFrame example_collaborators PosInf example_errors example_instances
                (example_worker {}))) = 0
   \<and> frameIsActive
        (snd (startNewFrame example_collaborators PosInf example_errors example_instances
                (example_worker {})))
   \<and> \<not> frameIsDone
        (snd (startNewFrame example_collaborators PosInf example_errors example_instances
                (example_worker {})))"
  by (simp add: startNewFrame_def Let_def example_worker_fields masterMsgSize_def
      isFrameComplete_def closeCurrentFrame_def IamAWorker_def IamTheMaster_def masterRank_def
      tileError_def TileError_read_def sync_def TileError_ctor_def)

section \<open>Properties: accumulation ids over a frame\<close>

lemma length_bcast: "n \<le> length buf \<Longrightarrow> length (bcast rank n f buf) = length buf"
  by (simp add: bcast_def)

lemma startNewFrame_keeps:
  "tileAccumID (snd (startNewFrame cl thr me mi s)) = tileAccumID s"
  "numTiles (snd (startNewFrame cl thr me mi s)) = numTiles s"
  "getTotalTiles s \<le> length (tileInstances s) \<Longrightarrow>
     length (tileInstances (snd (startNewFrame cl thr me mi s))) = length (tileInstances s)"
  by (simp_all add: startNewFrame_def Let_def foldl_scheduleProcessing isFrameComplete_def
      closeCurrentFrame_def length_bcast getTotalTiles_def split: outcome.splits)

lemma setTile_keeps:
  "tileAccumID (snd (setTile cl t s)) = tileAccumID s"
  "numTiles (snd (setTile cl t s)) = numTiles s"
  "tileInstances (snd (setTile cl t s)) = tileInstances s"
  by (simp_all add: setTile_def processTile_keeps split: outcome.splits)

lemma task_keeps:
  "tileAccumID (snd (task cl m s)) = tileAccumID s"
  "numTiles (snd (task cl m s)) = numTiles s"
  "tileInstances (snd (task cl m s)) = tileInstances s"
  by (simp_all add: task_def processMessage_WriteTile_def processTile_keeps
      split: outcome.splits Message.splits)

lemma runTask_keeps:
  "tileAccumID (snd (runTask cl i s)) = tileAccumID s"
  "numTiles (snd (runTask cl i s)) = numTiles s"
  "tileInstances (snd (runTask cl i s)) = tileInstances s"
  by (simp_all add: runTask_def task_keeps)

lemma processMessage_Master_keeps:
  "tileAccumID (snd (processMessage_Master msg s)) = tileAccumID s"
  "numTiles (snd (processMessage_Master msg s)) = numTiles s"
  "tileInstances (snd (processMessage_Master msg s)) = tileInstances s"
  by (simp_all add: processMessage_Master_def Let_def split: outcome.splits option.splits)

lemma masterWrite_keeps:
  "tileAccumID (snd (masterWrite g ts s)) = tileAccumID s
   \<and> numTiles (snd (masterWrite g ts s)) = numTiles s
   \<and> tileInstances (snd (masterWrite g ts s)) = tileInstances s"
proof (induction ts arbitrary: s)
  case Nil
  then show ?case by simp
next
  case (Cons t ts)
  obtain r s' where p: "processMessage_Master (g t) s = (r, s')"
    by (cases "processMessage_Master (g t) s")
  have k: "tileAccumID s' = tileAccumID s" "numTiles s' = numTiles s"
      "tileInstances s' = tileInstances s"
    using processMessage_Master_keeps [of "g t" s] by (simp_all add: p)
  show ?case
    using Cons.IH [of s'] by (cases r) (simp_all add: p k)
qed

lemma waitUntilFinished_keeps:
  "waitUntilFinished g ge s = Some r \<Longrightarrow>
     tileAccumID (snd r) = tileAccumID s \<and> numTiles (snd r) = numTiles s
     \<and> tileInstances (snd r) = tileInstances s"
  by (auto simp add: waitUntilFinished_def gatherFinalTiles_def gatherFinalErrors_def
      masterWrite_keeps split: if_splits outcome.splits prod.splits)

lemma accumID_keeps:
  "tileAccumID (snd (accumID t s)) = tileAccumID s"
  "numTiles (snd (accumID t s)) = numTiles s"
  "length (tileInstances (snd (accumID t s))) = length (tileInstances s)"
  by (simp_all add: accumID_def Let_def)

lemma frameOp_keeps:
  assumes "length (tileInstances s) = getTotalTiles s"
  shows "tileAccumID (frameOp cl op s) = tileAccumID s
     \<and> numTiles (frameOp cl op s) = numTiles s
     \<and> length (tileInstances (frameOp cl op s)) = length (tileInstances s)"
proof (cases op)
  case (Op_startNewFrame thr me mi)
  then show ?thesis using assms by (simp add: startNewFrame_keeps)
next
  case (Op_setTile t)
  then show ?thesis by (simp add: setTile_keeps)
next
  case (Op_incoming m)
  then show ?thesis by (simp add: incoming_def scheduleProcessing_def)
next
  case (Op_runTask i)
  then show ?thesis by (simp add: runTask_keeps)
next
  case (Op_waitUntilFinished g ge)
  then show ?thesis
    using waitUntilFinished_keeps [of g ge s] by (cases "waitUntilFinished g ge s") simp_all
next
  case (Op_accumID t)
  then show ?thesis by (simp add: accumID_keeps)
next
  case (Op_tileError t)
  then show ?thesis by simp
next
  case (Op_mapBuffer ch)
  then show ?thesis by (simp add: mapBuffer_def split: option.splits)
next
  case Op_unmap
  then show ?thesis by (simp add: unmap_def split: option.splits)
next
  case Op_sendCancelRenderingMessage
  then show ?thesis by (simp add: sendCancelRenderingMessage_def)
qed

lemma frameOps_keeps:
  assumes "length (tileInstances s) = getTotalTiles s"
  shows "tileAccumID (frameOps cl ops s) = tileAccumID s
     \<and> numTiles (frameOps cl ops s) = numTiles s
     \<and> length (tileInstances (frameOps cl ops s)) = length (tileInstances s)"
  using assms
proof (induction ops arbitrary: s)
  case Nil
  then show ?case by (simp add: frameOps_def)
next
  case (Cons op ops)
  let ?s1 = "frameOp cl op s"
  from frameOp_keeps [OF Cons.prems, of cl op]
  have k: "tileAccumID ?s1 = tileAccumID s" "numTiles ?s1 = numTiles s"
    "length (tileInstances ?s1) = length (tileInstances s)"
    by simp_all
  then have "length (tileInstances ?s1) = getTotalTiles ?s1"
    using Cons.prems by (simp add: getTotalTiles_def)
  from Cons.IH [OF this] k show ?case
    by (simp add: frameOps_def)
qed

lemma endFrame_increments:
  assumes "length (tileAccumID s) = getTotalTiles s" "length (tileInstances s) = getTotalTiles s"
  shows "(\<exists>r. fst (endFrame cl thr s) = Returned r)
     \<and> tileAccumID (snd (endFrame cl thr s)) = map (\<lambda>a. a + 1) (tileAccumID s)"
  using assms by (simp add: endFrame_def Let_def getTotalTiles_def)

lemma sint_succ:
  fixes a :: int32
  assumes "sint a < 2 ^ 31 - 1"
  shows "sint (a + 1) = sint a + 1"
proof -
  have "- (2 ^ 31) \<le> sint a" using sint_ge [of a] by simp
  then have "signed_take_bit 31 (sint a + 1) = sint a + 1"
    using assms by (intro signed_take_bit_int_eq_self) simp_all
  then show ?thesis by (simp add: sint_word_ariths)
qed

text \<open>\<open>clear\<close> with the accumulation channel, which the host calls on an idle frame
  buffer, is the one other member function that writes \<open>tileAccumID\<close>: it zeroes it.\<close>

lemma clear_resets_accumID:
  assumes "length (tileAccumID s) = getTotalTiles s" "hasAccumBuffer s"
    "OSP_FB_ACCUM \<in> fbChannelFlags"
  shows "tileAccumID (snd (clear cl fbChannelFlags s)) = replicate (getTotalTiles s) 0"
  using assms by (simp add: clear_def Let_def zeroFirst_def getTotalTiles_def)

text \<open>Claim C6. On a consistent object \<open>endFrame\<close> returns and adds one to the
  accumulation id of every tile. \<open>beginFrame\<close> and every operation of a frame
  (\<open>startNewFrame\<close>, \<open>setTile\<close>, \<open>incoming\<close>, a task of the work pool, \<open>waitUntilFinished\<close>
  with the final gather, \<open>accumID\<close>, \<open>tileError\<close>, \<open>mapBuffer\<close>, \<open>unmap\<close>,
  \<open>sendCancelRenderingMessage\<close>), whatever its outcome, leave \<open>tileAccumID\<close> as it is. So
  after \<open>beginFrame\<close>, any sequence of these operations and \<open>endFrame\<close>, the id of every
  tile is the id before plus one, as 32-bit words, and as integers unless the id was
  \<open>2^31 - 1\<close>.\<close>

theorem endFrame_increments_accumID:
  assumes "consistent s"
  shows "(\<exists>r. fst (endFrame cl errorThreshold s) = Returned r)
    \<and> tileAccumID (snd (endFrame cl errorThreshold s)) = map (\<lambda>a. a + 1) (tileAccumID s)
    \<and> tileAccumID (beginFrame s) = tileAccumID s
    \<and> tileAccumID (frameOp cl op s) = tileAccumID s
    \<and> tileAccumID (frameOps cl ops (beginFrame s)) = tileAccumID s
    \<and> (\<exists>r. fst (endFrame cl errorThreshold (frameOps cl ops (beginFrame s))) = Returned r)
    \<and> (\<forall>t < getTotalTiles s.
          tileAccumID (snd (endFrame cl errorThreshold (frameOps cl ops (beginFrame s)))) ! t
            = tileAccumID s ! t + 1
          \<and> (sint (tileAccumID s ! t) < 2 ^ 31 - 1 \<longrightarrow>
               sint (tileAccumID
                       (snd (endFrame cl errorThreshold (frameOps cl ops (beginFrame s)))) ! t)
                 = sint (tileAccumID s ! t) + 1))"
proof -
  let ?b = "beginFrame s"
  let ?f = "frameOps cl ops ?b"
  have len: "length (tileAccumID s) = getTotalTiles s" "length (tileInstances s) = getTotalTiles s"
    using assms by (simp_all add: consistent_def)
  have b: "tileAccumID ?b = tileAccumID s" "length (tileInstances ?b) = getTotalTiles ?b"
    "getTotalTiles ?b = getTotalTiles s"
    using len by (simp_all add: beginFrame_def getTotalTiles_def)
  from frameOps_keeps [OF b(2), of cl ops] b
  have f: "tileAccumID ?f = tileAccumID s" "getTotalTiles ?f = getTotalTiles s"
    "length (tileInstances ?f) = getTotalTiles ?f"
    by (simp_all add: getTotalTiles_def)
  have one: "tileAccumID (frameOp cl op s) = tileAccumID s"
    using frameOp_keeps [OF len(2), of cl op] by simp
  from endFrame_increments [OF len, of cl errorThreshold]
  have e0: "\<exists>r. fst (endFrame cl errorThreshold s) = Returned r"
    "tileAccumID (snd (endFrame cl errorThreshold s)) = map (\<lambda>a. a + 1) (tileAccumID s)"
    by simp_all
  have "length (tileAccumID ?f) = getTotalTiles ?f"
    using f len by simp
  from endFrame_increments [OF this f(3), of cl errorThreshold]
  have e: "\<exists>r. fst (endFrame cl errorThreshold ?f) = Returned r"
    "tileAccumID (snd (endFrame cl errorThreshold ?f)) = map (\<lambda>a. a + 1) (tileAccumID s)"
    by (simp_all add: f)
  have each: "tileAccumID (snd (endFrame cl errorThreshold ?f)) ! t = tileAccumID s ! t + 1
          \<and> (sint (tileAccumID s ! t) < 2 ^ 31 - 1 \<longrightarrow>
               sint (tileAccumID (snd (endFrame cl errorThreshold ?f)) ! t)
                 = sint (tileAccumID s ! t) + 1)" if "t < getTotalTiles s" for t
    using that len by (simp add: e(2) sint_succ)
  from e0 b(1) one f(1) e(1) each show ?thesis by blast
qed

theorem endFrame_increments_accumID_witness:
  "consistent (example_worker {OSP_FB_ACCUM})
   \<and> 2 < getTotalTiles (example_worker {OSP_FB_ACCUM})
   \<and> sint (tileAccumID (example_worker {OSP_FB_ACCUM}) ! 2) < 2 ^ 31 - 1
   \<and> tileAccumID
        (snd (endFrame example_collaborators PosInf
           (frameOps example_collaborators
              [Op_startNewFrame PosInf example_errors example_instances, Op_accumID (1, 1),
               Op_setTile (0, 0), Op_incoming (Msg_TileMessage \<lparr>command = CANCEL_RENDERING\<rparr>),
               Op_runTask 0, Op_mapBuffer OSP_FB_COLOR, Op_unmap, Op_sendCancelRenderingMessage]
              (beginFrame (example_worker {OSP_FB_ACCUM}))))) ! 2 = 1
   \<and> sint (tileAccumID
        (snd (endFrame example_collaborators PosInf
           (frameOps example_collaborators
              [Op_startNewFrame PosInf example_errors example_instances, Op_accumID (1, 1),
               Op_setTile (0, 0), Op_incoming (Msg_TileMessage \<lparr>command = CANCEL_RENDERING\<rparr>),
               Op_runTask 0, Op_mapBuffer OSP_FB_COLOR, Op_unmap, Op_sendCancelRenderingMessage]
              (beginFrame (example_worker {OSP_FB_ACCUM}))))) ! 2) = 1"
proof -
  let ?s = "example_worker {OSP_FB_ACCUM}"
  let ?ops = "[Op_startNewFrame PosInf example_errors example_instances, Op_accumID (1, 1),
               Op_setTile (0, 0), Op_incoming (Msg_TileMessage \<lparr>command = CANCEL_RENDERING\<rparr>),
               Op_runTask 0, Op_mapBuffer OSP_FB_COLOR, Op_unmap, Op_sendCancelRenderingMessage]
              :: (vec2i, nat) FrameOp list"
  have a: "consistent ?s"
    by (rule example_worker_consistent)
  have b: "2 < getTotalTiles ?s" "tileAccumID ?s ! 2 = 0"
    by (simp_all add: getTotalTiles_def example_worker_fields)
  have c: "sint (tileAccumID ?s ! 2) < 2 ^ 31 - 1"
    by (simp add: b)
  from endFrame_increments_accumID [OF a, of example_collaborators PosInf _ ?ops] b(1) c
  have "tileAccumID (snd (endFrame example_collaborators PosInf
           (frameOps example_collaborators ?ops (beginFrame ?s)))) ! 2 = tileAccumID ?s ! 2 + 1
     \<and> sint (tileAccumID (snd (endFrame example_collaborators PosInf
           (frameOps example_collaborators ?ops (beginFrame ?s)))) ! 2) = sint (tileAccumID ?s ! 2) + 1"
    by blast
  with a b c show ?thesis by simp
qed

section \<open>Properties: the master assembler\<close>

lemma unchangedAt_refl: "unchangedAt fb fb j"
  by (simp add: unchangedAt_def)

lemma unchangedAt_trans: "unchangedAt fb fb1 j \<Longrightarrow> unchangedAt fb1 fb2 j \<Longrightarrow> unchangedAt fb fb2 j"
  by (simp add: unchangedAt_def)

lemma writePixel_other:
  "j \<noteq> (ix + fst (coords msg)) + (iy + snd (coords msg)) * fst (numPixels s) \<Longrightarrow>
   unchangedAt fb (writePixel s msg hasD hasA iy ix fb) j"
  by (simp add: writePixel_def Let_def unchangedAt_def)

lemma pixelLoop_x_other:
  assumes "\<forall>ix\<in>set ixs. ix + fst (coords msg) < fst (numPixels s) \<longrightarrow>
             j \<noteq> (ix + fst (coords msg)) + (iy + snd (coords msg)) * fst (numPixels s)"
  shows "unchangedAt fb (pixelLoop_x s msg hasD hasA iy ixs fb) j"
  using assms
proof (induction ixs arbitrary: fb)
  case Nil
  then show ?case by (simp add: unchangedAt_refl)
next
  case (Cons ix ixs)
  have rest: "\<And>fb'. unchangedAt fb' (pixelLoop_x s msg hasD hasA iy ixs fb') j"
    using Cons by simp
  show ?case
  proof (cases "ix + fst (coords msg) \<ge> fst (numPixels s)")
    case True
    then show ?thesis using rest by simp
  next
    case False
    then have "unchangedAt fb (writePixel s msg hasD hasA iy ix fb) j"
      using Cons.prems by (intro writePixel_other) simp
    from unchangedAt_trans [OF this rest] False show ?thesis by simp
  qed
qed

lemma pixelLoop_y_other:
  assumes "\<forall>iy\<in>set iys. iy + snd (coords msg) < snd (numPixels s) \<longrightarrow>
             (\<forall>ix\<in>set (map int [0..<TILE_SIZE s]). ix + fst (coords msg) < fst (numPixels s) \<longrightarrow>
                j \<noteq> (ix + fst (coords msg)) + (iy + snd (coords msg)) * fst (numPixels s))"
  shows "unchangedAt fb (pixelLoop_y s msg hasD hasA iys fb) j"
  using assms
proof (induction iys arbitrary: fb)
  case Nil
  then show ?case by (simp add: unchangedAt_refl)
next
  case (Cons iy iys)
  have rest: "\<And>fb'. unchangedAt fb' (pixelLoop_y s msg hasD hasA iys fb') j"
    using Cons by simp
  show ?case
  proof (cases "iy + snd (coords msg) \<ge> snd (numPixels s)")
    case True
    then show ?thesis using rest by simp
  next
    case False
    then have "unchangedAt fb (pixelLoop_x s msg hasD hasA iy (map int [0..<TILE_SIZE s]) fb) j"
      using Cons.prems by (intro pixelLoop_x_other) simp
    from unchangedAt_trans [OF this rest] False show ?thesis by simp
  qed
qed

lemma assemble_other:
  assumes "\<not> unchangedAt fb (assemble s msg fb) j"
  shows "\<exists>ix iy. 0 \<le> ix \<and> ix < int (TILE_SIZE s) \<and> 0 \<le> iy \<and> iy < int (TILE_SIZE s)
     \<and> ix + fst (coords msg) < fst (numPixels s) \<and> iy + snd (coords msg) < snd (numPixels s)
     \<and> j = (ix + fst (coords msg)) + (iy + snd (coords msg)) * fst (numPixels s)"
proof (rule ccontr)
  let ?inside = "\<exists>ix iy. 0 \<le> ix \<and> ix < int (TILE_SIZE s) \<and> 0 \<le> iy \<and> iy < int (TILE_SIZE s)
     \<and> ix + fst (coords msg) < fst (numPixels s) \<and> iy + snd (coords msg) < snd (numPixels s)
     \<and> j = (ix + fst (coords msg)) + (iy + snd (coords msg)) * fst (numPixels s)"
  assume n: "\<not> ?inside"
  have "unchangedAt fb (assemble s msg fb) j"
    unfolding assemble_def
  proof (rule pixelLoop_y_other, intro ballI impI)
    fix iy ix
    assume "iy \<in> set (map int [0..<TILE_SIZE s])" "ix \<in> set (map int [0..<TILE_SIZE s])"
      "iy + snd (coords msg) < snd (numPixels s)" "ix + fst (coords msg) < fst (numPixels s)"
    then have b: "0 \<le> ix" "ix < int (TILE_SIZE s)" "0 \<le> iy" "iy < int (TILE_SIZE s)"
      "ix + fst (coords msg) < fst (numPixels s)" "iy + snd (coords msg) < snd (numPixels s)"
      by auto
    show "j \<noteq> (ix + fst (coords msg)) + (iy + snd (coords msg)) * fst (numPixels s)"
    proof
      assume "j = (ix + fst (coords msg)) + (iy + snd (coords msg)) * fst (numPixels s)"
      with b have ?inside by blast
      with n show False by (rule notE)
    qed
  qed
  with assms show False by simp
qed

lemma assemble_cong:
  "numPixels s' = numPixels s \<Longrightarrow> TILE_SIZE s' = TILE_SIZE s \<Longrightarrow>
   hasDepthBuffer s' = hasDepthBuffer s \<Longrightarrow> hasNormalBuffer s' = hasNormalBuffer s \<Longrightarrow>
   hasAlbedoBuffer s' = hasAlbedoBuffer s \<Longrightarrow> assemble s' msg fb = assemble s msg fb"
proof -
  assume a: "numPixels s' = numPixels s" "TILE_SIZE s' = TILE_SIZE s"
   "hasDepthBuffer s' = hasDepthBuffer s" "hasNormalBuffer s' = hasNormalBuffer s"
   "hasAlbedoBuffer s' = hasAlbedoBuffer s"
  have w: "\<And>d a iy ix fb. writePixel s' msg d a iy ix fb = writePixel s msg d a iy ix fb"
    by (simp add: writePixel_def a)
  have x: "\<And>d a iy ixs fb. pixelLoop_x s' msg d a iy ixs fb = pixelLoop_x s msg d a iy ixs fb"
    subgoal for d a iy ixs fb
      by (induction ixs arbitrary: fb) (simp_all add: w a)
    done
  have y: "\<And>d a iys fb. pixelLoop_y s' msg d a iys fb = pixelLoop_y s msg d a iys fb"
    subgoal for d a iys fb
      by (induction iys arbitrary: fb) (simp_all add: x a)
    done
  show ?thesis by (simp add: assemble_def y a)
qed

lemma offset_inj:
  fixes a b p q W :: int
  assumes "0 \<le> a" "a < W" "0 \<le> b" "b < W" "a + p * W = b + q * W"
  shows "p = q"
proof -
  have W: "W \<noteq> 0" using assms by auto
  from assms(5) have "(a + p * W) div W = (b + q * W) div W"
    by (rule arg_cong)
  then show ?thesis
    using assms(1-4) W by simp
qed

lemma int_mem_row: "0 \<le> i \<Longrightarrow> i < int T \<Longrightarrow> i \<in> set (map int [0..<T])"
  by (auto simp add: image_iff intro: bexI [of _ "nat i"])

lemma writePixel_color:
  "colorBuffer (writePixel s msg hasD hasA iy ix fb)
     ((ix + fst (coords msg)) + (iy + snd (coords msg)) * fst (numPixels s))
   = color msg (ix + iy * int (TILE_SIZE s))"
  by (simp add: writePixel_def Let_def)

lemma pixelLoop_x_writes:
  assumes "distinct ixs" "ix0 \<in> set ixs" "ix0 + fst (coords msg) < fst (numPixels s)"
  shows "colorBuffer (pixelLoop_x s msg hasD hasA iy ixs fb)
           ((ix0 + fst (coords msg)) + (iy + snd (coords msg)) * fst (numPixels s))
         = color msg (ix0 + iy * int (TILE_SIZE s))"
  using assms
proof (induction ixs arbitrary: fb)
  case Nil
  then show ?case by simp
next
  case (Cons ix ixs)
  let ?j = "(ix0 + fst (coords msg)) + (iy + snd (coords msg)) * fst (numPixels s)"
  show ?case
  proof (cases "ix = ix0")
    case True
    let ?fb1 = "writePixel s msg hasD hasA iy ix0 fb"
    have "\<forall>ix'\<in>set ixs. ix' + fst (coords msg) < fst (numPixels s) \<longrightarrow>
        ?j \<noteq> (ix' + fst (coords msg)) + (iy + snd (coords msg)) * fst (numPixels s)"
      using Cons.prems(1) True by auto
    from pixelLoop_x_other [OF this, where hasD = hasD and hasA = hasA and fb = ?fb1]
    have "colorBuffer (pixelLoop_x s msg hasD hasA iy ixs ?fb1) ?j = colorBuffer ?fb1 ?j"
      by (simp add: unchangedAt_def)
    then show ?thesis
      using True Cons.prems(3) by (simp add: writePixel_color)
  next
    case False
    then have "ix0 \<in> set ixs" "distinct ixs"
      using Cons.prems by simp_all
    from Cons.IH [OF this(2) this(1) Cons.prems(3)] show ?thesis
      by simp
  qed
qed

lemma pixelLoop_y_writes:
  assumes "distinct iys" "iy0 \<in> set iys" "iy0 + snd (coords msg) < snd (numPixels s)"
    "0 \<le> ix0" "ix0 < int (TILE_SIZE s)" "ix0 + fst (coords msg) < fst (numPixels s)"
    "0 \<le> fst (coords msg)"
  shows "colorBuffer (pixelLoop_y s msg hasD hasA iys fb)
           ((ix0 + fst (coords msg)) + (iy0 + snd (coords msg)) * fst (numPixels s))
         = color msg (ix0 + iy0 * int (TILE_SIZE s))"
  using assms(1,2)
proof (induction iys arbitrary: fb)
  case Nil
  then show ?case by simp
next
  case (Cons iy iys)
  let ?j = "(ix0 + fst (coords msg)) + (iy0 + snd (coords msg)) * fst (numPixels s)"
  let ?row = "map int [0..<TILE_SIZE s]"
  show ?case
  proof (cases "iy = iy0")
    case True
    let ?fb1 = "pixelLoop_x s msg hasD hasA iy0 ?row fb"
    have d: "distinct ?row" by (simp add: distinct_map)
    have m: "ix0 \<in> set ?row"
      using assms(4,5) by (rule int_mem_row)
    have c: "colorBuffer ?fb1 ?j = color msg (ix0 + iy0 * int (TILE_SIZE s))"
      by (rule pixelLoop_x_writes [OF d m assms(6)])
    have "\<forall>iy'\<in>set iys. iy' + snd (coords msg) < snd (numPixels s) \<longrightarrow>
             (\<forall>ix'\<in>set ?row. ix' + fst (coords msg) < fst (numPixels s) \<longrightarrow>
                ?j \<noteq> (ix' + fst (coords msg)) + (iy' + snd (coords msg)) * fst (numPixels s))"
    proof (intro ballI impI notI)
      fix iy' ix'
      assume h: "iy' \<in> set iys" "ix' \<in> set ?row" "ix' + fst (coords msg) < fst (numPixels s)"
        "?j = (ix' + fst (coords msg)) + (iy' + snd (coords msg)) * fst (numPixels s)"
      have "0 \<le> ix'" using h(2) by auto
      then have "iy0 + snd (coords msg) = iy' + snd (coords msg)"
        using offset_inj [of "ix0 + fst (coords msg)" "fst (numPixels s)" "ix' + fst (coords msg)"
            "iy0 + snd (coords msg)" "iy' + snd (coords msg)"] assms(4,6,7) h(3,4)
        by simp
      then have "iy' = iy0" by simp
      with h(1) Cons.prems(1) True show False by simp
    qed
    from pixelLoop_y_other [OF this, where hasD = hasD and hasA = hasA and fb = ?fb1]
    have "colorBuffer (pixelLoop_y s msg hasD hasA iys ?fb1) ?j = colorBuffer ?fb1 ?j"
      by (simp add: unchangedAt_def)
    then show ?thesis
      using True assms(3) c by simp
  next
    case False
    then have "iy0 \<in> set iys" "distinct iys"
      using Cons.prems by simp_all
    from Cons.IH [OF this(2) this(1)] show ?thesis
      by simp
  qed
qed

lemma assemble_writes:
  assumes "0 \<le> ix" "ix < int (TILE_SIZE s)" "0 \<le> iy" "iy < int (TILE_SIZE s)"
    "ix + fst (coords msg) < fst (numPixels s)" "iy + snd (coords msg) < snd (numPixels s)"
    "0 \<le> fst (coords msg)"
  shows "colorBuffer (assemble s msg fb)
           ((ix + fst (coords msg)) + (iy + snd (coords msg)) * fst (numPixels s))
         = color msg (ix + iy * int (TILE_SIZE s))"
proof -
  have d: "distinct (map int [0..<TILE_SIZE s])" by (simp add: distinct_map)
  have m: "iy \<in> set (map int [0..<TILE_SIZE s])"
    using assms(3,4) by (rule int_mem_row)
  show ?thesis
    unfolding assemble_def
    by (rule pixelLoop_y_writes [OF d m assms(6) assms(1) assms(2) assms(5) assms(7)])
qed

lemma example_master_fields:
  "numPixels example_master = (3, 3)"
  "TILE_SIZE example_master = 2"
  "hasDepthBuffer example_master = True"
  "hasVarianceBuffer example_master = False"
  "hasNormalBuffer example_master = False"
  "hasAlbedoBuffer example_master = False"
  "localFBonMaster example_master =
     Some \<lparr>colorBuffer = (\<lambda>i. 0), depthBuffer = (\<lambda>i. PosInf),
           normalBuffer = (\<lambda>i. (Finite 0, Finite 0, Finite 0)),
           albedoBuffer = (\<lambda>i. (Finite 0, Finite 0, Finite 0))\<rparr>"
proof -
  define s0 :: "(vec2i, nat, nat) DFB"
    where "s0 = DFB_init 2 True 0 3 (3, 3) OSP_FB_RGBA8 {OSP_FB_COLOR, OSP_FB_DEPTH} False"
  have f: "numPixels s0 = (3, 3)" "TILE_SIZE s0 = 2" "numGlobalRanks s0 = 3" "globalRank s0 = 0"
    "\<not> masterIsAWorker s0" "hasDepthBuffer s0" "\<not> hasVarianceBuffer s0"
    "\<not> hasNormalBuffer s0" "\<not> hasAlbedoBuffer s0" "localFBonMaster s0 = None"
    by (simp_all add: s0_def DFB_init_def FrameBuffer_ctor_def Let_def)
  obtain r tid acc where c: "createTiles_y example_collaborators s0 0 0 (myTiles s0, allTiles s0) = (r, tid, acc)"
    by (metis prod_cases3)
  have "fst (createTiles_y example_collaborators s0 0 0 (myTiles s0, allTiles s0)) = Returned ()"
    using f by (simp add: createTiles_y.simps createTiles_x.simps rank_defs del: One_nat_def)
  then have r: "r = Returned ()" by (simp add: c)
  have e: "example_master =
     s0\<lparr>myTiles := fst acc, allTiles := snd acc,
        tileAccumID := replicate (getTotalTiles s0) 0,
        tileInstances := replicate (getTotalTiles s0) 0,
        localFBonMaster := Some (new_LocalFrameBuffer example_collaborators (3, 3) OSP_FB_RGBA8
                                   ({OSP_FB_COLOR, OSP_FB_DEPTH} - {OSP_FB_ACCUM, OSP_FB_VARIANCE}))\<rparr>"
    unfolding example_master_def DFB_ctor_def s0_def [symmetric]
    by (simp add: createTiles_def c r getTotalTiles_def rank_defs)
  show "numPixels example_master = (3, 3)"
    "TILE_SIZE example_master = 2"
    "hasDepthBuffer example_master = True"
    "hasVarianceBuffer example_master = False"
    "hasNormalBuffer example_master = False"
    "hasAlbedoBuffer example_master = False"
    "localFBonMaster example_master =
     Some \<lparr>colorBuffer = (\<lambda>i. 0), depthBuffer = (\<lambda>i. PosInf),
           normalBuffer = (\<lambda>i. (Finite 0, Finite 0, Finite 0)),
           albedoBuffer = (\<lambda>i. (Finite 0, Finite 0, Finite 0))\<rparr>"
    by (simp_all add: e f example_collaborators_def)
qed

text \<open>Claim C7. When the master processes a master tile message, an offset of the local
  frame buffer where the colour, depth, normal or albedo buffer differs afterwards is the
  offset \<open>x + y * numPixels.x\<close> of a pixel \<open>(x, y) = (ix + coords.x, iy + coords.y)\<close> of the
  tile with \<open>x < numPixels.x\<close> and \<open>y < numPixels.y\<close>: the pixels of the tile beyond the
  right or the lower edge of the image are skipped. The pixels of the tile inside the image
  are written: when the message is processed without error and the tile does not start left
  of the image, each of them holds the colour the message has for it.\<close>

theorem assembler_clips_to_image:
  assumes "localFBonMaster s = Some fb"
  shows "\<exists>fb'. localFBonMaster (snd (processMessage_Master msg s)) = Some fb'
     \<and> (\<forall>j. \<not> unchangedAt fb fb' j \<longrightarrow>
          (\<exists>ix iy. 0 \<le> ix \<and> ix < int (TILE_SIZE s) \<and> 0 \<le> iy \<and> iy < int (TILE_SIZE s)
             \<and> ix + fst (coords msg) < fst (numPixels s)
             \<and> iy + snd (coords msg) < snd (numPixels s)
             \<and> j = (ix + fst (coords msg)) + (iy + snd (coords msg)) * fst (numPixels s)))
     \<and> (fst (processMessage_Master msg s) = Returned () \<and> 0 \<le> fst (coords msg) \<longrightarrow>
          (\<forall>ix iy. 0 \<le> ix \<and> ix < int (TILE_SIZE s) \<and> 0 \<le> iy \<and> iy < int (TILE_SIZE s)
             \<and> ix + fst (coords msg) < fst (numPixels s)
             \<and> iy + snd (coords msg) < snd (numPixels s) \<longrightarrow>
             colorBuffer fb'
               ((ix + fst (coords msg)) + (iy + snd (coords msg)) * fst (numPixels s))
             = color msg (ix + iy * int (TILE_SIZE s))))"
proof -
  let ?r = "if hasVarianceBuffer s \<and> flt (error msg) PosInf
               then TileError_update
                      (cdiv (fst (coords msg)) (int (TILE_SIZE s)),
                       cdiv (snd (coords msg)) (int (TILE_SIZE s)))
                      (error msg) (tileErrorRegion s)
               else (Returned (), tileErrorRegion s)"
  let ?s1 = "s\<lparr>tileErrorRegion := snd ?r\<rparr>"
  have c: "assemble ?s1 msg fb = assemble s msg fb"
    by (rule assemble_cong) simp_all
  show ?thesis
  proof (cases "fst ?r")
    case (Returned u)
    then have "processMessage_Master msg s
        = (Returned (), ?s1\<lparr>localFBonMaster := Some (assemble s msg fb)\<rparr>)"
      using assms c by (simp add: processMessage_Master_def Let_def)
    then show ?thesis
      using assemble_other [of fb s msg] assemble_writes [of _ s _ msg fb]
      by (intro exI [of _ "assemble s msg fb"]) auto
  next
    case (Raised e)
    then have "processMessage_Master msg s = (Raised e, ?s1)"
      by (simp add: processMessage_Master_def Let_def)
    then show ?thesis
      using assms by (intro exI [of _ fb]) (simp add: unchangedAt_refl)
  qed
qed


theorem assembler_clips_to_image_witness:
  "localFBonMaster example_master =
     Some \<lparr>colorBuffer = (\<lambda>i. 0), depthBuffer = (\<lambda>i. PosInf),
           normalBuffer = (\<lambda>i. (Finite 0, Finite 0, Finite 0)),
           albedoBuffer = (\<lambda>i. (Finite 0, Finite 0, Finite 0))\<rparr>
   \<and> fst (processMessage_Master example_message example_master) = Returned ()
   \<and> 0 \<le> fst (coords example_message)
   \<and> (\<exists>fb'. localFBonMaster (snd (processMessage_Master example_message example_master)) = Some fb'
         \<and> colorBuffer fb' 8 = 7
         \<and> unchangedAt \<lparr>colorBuffer = (\<lambda>i. 0), depthBuffer = (\<lambda>i. PosInf),
                          normalBuffer = (\<lambda>i. (Finite 0, Finite 0, Finite 0)),
                          albedoBuffer = (\<lambda>i. (Finite 0, Finite 0, Finite 0))\<rparr> fb' 9
         \<and> unchangedAt \<lparr>colorBuffer = (\<lambda>i. 0), depthBuffer = (\<lambda>i. PosInf),
                          normalBuffer = (\<lambda>i. (Finite 0, Finite 0, Finite 0)),
                          albedoBuffer = (\<lambda>i. (Finite 0, Finite 0, Finite 0))\<rparr> fb' 11)"
proof -
  let ?fb = "\<lparr>colorBuffer = (\<lambda>i. 0 :: nat), depthBuffer = (\<lambda>i. PosInf),
           normalBuffer = (\<lambda>i. (Finite 0, Finite 0, Finite 0)),
           albedoBuffer = (\<lambda>i. (Finite 0, Finite 0, Finite 0))\<rparr>"
  have a: "localFBonMaster example_master = Some ?fb"
    by (rule example_master_fields)
  have b: "fst (processMessage_Master example_message example_master) = Returned ()"
    by (simp add: processMessage_Master_def Let_def example_master_fields)
  have c: "coords example_message = (2, 2)" "color example_message 0 = 7"
    by (simp_all add: example_message_def)
  from assembler_clips_to_image [OF a, of example_message]
  obtain fb' where fb': "localFBonMaster (snd (processMessage_Master example_message example_master)) = Some fb'"
    and frame: "\<And>j. \<not> unchangedAt ?fb fb' j \<Longrightarrow>
          (\<exists>ix iy. 0 \<le> ix \<and> ix < int (TILE_SIZE example_master) \<and> 0 \<le> iy
             \<and> iy < int (TILE_SIZE example_master)
             \<and> ix + fst (coords example_message) < fst (numPixels example_master)
             \<and> iy + snd (coords example_message) < snd (numPixels example_master)
             \<and> j = (ix + fst (coords example_message))
                   + (iy + snd (coords example_message)) * fst (numPixels example_master))"
    and writes: "fst (processMessage_Master example_message example_master) = Returned ()
           \<and> 0 \<le> fst (coords example_message) \<longrightarrow>
          (\<forall>ix iy. 0 \<le> ix \<and> ix < int (TILE_SIZE example_master) \<and> 0 \<le> iy
             \<and> iy < int (TILE_SIZE example_master)
             \<and> ix + fst (coords example_message) < fst (numPixels example_master)
             \<and> iy + snd (coords example_message) < snd (numPixels example_master) \<longrightarrow>
             colorBuffer fb'
               ((ix + fst (coords example_message))
                + (iy + snd (coords example_message)) * fst (numPixels example_master))
             = color example_message (ix + iy * int (TILE_SIZE example_master)))"
    by blast
  have w: "colorBuffer fb' 8 = 7"
    using writes [rule_format, of 0 0] b c by (simp add: example_master_fields)
  have u9: "unchangedAt ?fb fb' 9"
  proof (rule ccontr)
    assume "\<not> unchangedAt ?fb fb' 9"
    from frame [OF this] show False
      by (auto simp add: example_master_fields c)
  qed
  have u11: "unchangedAt ?fb fb' 11"
  proof (rule ccontr)
    assume "\<not> unchangedAt ?fb fb' 11"
    from frame [OF this] show False
      by (auto simp add: example_master_fields c)
  qed
  from a b c fb' w u9 u11 show ?thesis by simp
qed

end
